theory Spec2Isabelle
  imports Complex_Main "HOL-Library.AList"
begin

section \<open>ControleGarantias: the product form component (cadastro.component.ts)\<close>

text \<open>
  A shallow embedding of \<^verbatim>\<open>CadastroComponent\<close>. The component is TypeScript running on
  a JavaScript engine and on Angular's reactive forms, so the embedding has three layers:
  the JavaScript values and built-ins the component calls (\<^verbatim>\<open>Number\<close>, \<^verbatim>\<open>isNaN\<close>,
  \<^verbatim>\<open>new Date\<close>, \<^verbatim>\<open>getMonth\<close>, \<^verbatim>\<open>setMonth\<close>, truthiness, \<^verbatim>\<open>+\<close>), following ECMA-262;
  the part of Angular's \<^verbatim>\<open>FormGroup\<close> it relies on (\<^verbatim>\<open>value\<close>, \<^verbatim>\<open>patchValue\<close>); and the
  component's own methods, which keep their names.
\<close>

subsection \<open>JavaScript values\<close>

text \<open>
  A Number is NaN, an infinity or a finite value. Finite values are kept as exact
  rationals: rounding to the nearest binary64 value is only modelled where it changes the
  class of the number (overflow to an infinity, underflow to zero), and the two zeros are
  one value. Strings are lists of code units below 256.
\<close>

datatype jsnum = NaN | PosInf | NegInf | Num rat

text \<open>
  A Date object lives in the heap and is known by its address; its time value is an
  integral number of milliseconds since the epoch, or NaN (\<open>None\<close>) for an invalid date.
\<close>

type_synonym timeval = "int option"

datatype jsval =
    JUndefined
  | JNull
  | JBool bool
  | JNum jsnum
  | JStr string
  | JDate nat

type_synonym jsobj = "(string \<times> jsval) list"

type_synonym heap = "timeval list"

definition deref :: "heap \<Rightarrow> nat \<Rightarrow> timeval" where
  "deref h a = (if a < length h then h ! a else None)"

text \<open>Reading a property: a missing one reads as \<^verbatim>\<open>undefined\<close>.\<close>

definition obj_get :: "jsobj \<Rightarrow> string \<Rightarrow> jsval" where
  "obj_get ob k = (case map_of ob k of None \<Rightarrow> JUndefined | Some v \<Rightarrow> v)"

text \<open>Assigning a property: an existing one keeps its place, a new one goes last.\<close>

definition obj_set :: "jsobj \<Rightarrow> string \<Rightarrow> jsval \<Rightarrow> jsobj" where
  "obj_set ob k v = AList.update k v ob"

text \<open>ToBoolean (ECMA-262 7.1.2).\<close>

fun truthy :: "jsval \<Rightarrow> bool" where
  "truthy JUndefined = False"
| "truthy JNull = False"
| "truthy (JBool b) = b"
| "truthy (JNum NaN) = False"
| "truthy (JNum (Num q)) = (q \<noteq> 0)"
| "truthy (JNum _) = True"
| "truthy (JStr s) = (s \<noteq> [])"
| "truthy (JDate _) = True"

subsection \<open>StringToNumber (ECMA-262 7.1.4.1.1)\<close>

definition isStrWhiteSpaceChar :: "char \<Rightarrow> bool" where
  "isStrWhiteSpaceChar c = ((of_char c :: nat) \<in> {9, 10, 11, 12, 13, 32, 160})"

definition trimString :: "string \<Rightarrow> string" where
  "trimString s = rev (dropWhile isStrWhiteSpaceChar (rev (dropWhile isStrWhiteSpaceChar s)))"

definition isDecimalDigit :: "char \<Rightarrow> bool" where
  "isDecimalDigit c = (48 \<le> (of_char c :: nat) \<and> (of_char c :: nat) \<le> 57)"

text \<open>The value of a digit in a radix up to 16, if it is one.\<close>

definition digitValue :: "nat \<Rightarrow> char \<Rightarrow> nat option" where
  "digitValue radix c =
     (let n = (of_char c :: nat);
          v = (if 48 \<le> n \<and> n \<le> 57 then Some (n - 48)
               else if 97 \<le> n \<and> n \<le> 102 then Some (n - 87)
               else if 65 \<le> n \<and> n \<le> 70 then Some (n - 55)
               else None)
      in case v of None \<Rightarrow> None | Some d \<Rightarrow> if d < radix then Some d else None)"

fun digitsValue :: "nat \<Rightarrow> nat \<Rightarrow> string \<Rightarrow> nat option" where
  "digitsValue radix acc [] = Some acc"
| "digitsValue radix acc (c # cs) =
     (case digitValue radix c of
        None \<Rightarrow> None
      | Some d \<Rightarrow> digitsValue radix (radix * acc + d) cs)"

text \<open>
  Rounding where it changes the class of the number: a magnitude of at least
  \<open>2^1024 - 2^970\<close> rounds to an infinity, one of at most \<open>2^-1075\<close> to zero.
\<close>

definition roundNumber :: "rat \<Rightarrow> jsnum" where
  "roundNumber q =
     (if 2 ^ 1024 - 2 ^ 970 \<le> \<bar>q\<bar> then (if 0 < q then PosInf else NegInf)
      else if \<bar>q\<bar> \<le> 1 / 2 ^ 1075 then Num 0
      else Num q)"

text \<open>NonDecimalIntegerLiteral: \<^verbatim>\<open>0b\<close>, \<^verbatim>\<open>0o\<close>, \<^verbatim>\<open>0x\<close> and the upper-case prefixes, unsigned.\<close>

definition nonDecimalRadix :: "char \<Rightarrow> nat option" where
  "nonDecimalRadix c =
     (if c = CHR ''b'' \<or> c = CHR ''B'' then Some 2
      else if c = CHR ''o'' \<or> c = CHR ''O'' then Some 8
      else if c = CHR ''x'' \<or> c = CHR ''X'' then Some 16
      else None)"

definition parseNonDecimal :: "string \<Rightarrow> nat option" where
  "parseNonDecimal s =
     (case s of
        z # p # d # ds \<Rightarrow>
          (if z = CHR ''0'' then
             (case nonDecimalRadix p of
                None \<Rightarrow> None
              | Some radix \<Rightarrow> digitsValue radix 0 (d # ds))
           else None)
      | _ \<Rightarrow> None)"

text \<open>SignedInteger of an ExponentPart.\<close>

definition parseSignedInteger :: "string \<Rightarrow> int option" where
  "parseSignedInteger s =
     (let (neg, ds) =
            (case s of
               c # cs \<Rightarrow>
                 if c = CHR ''+'' then (False, cs)
                 else if c = CHR ''-'' then (True, cs)
                 else (False, s)
             | [] \<Rightarrow> (False, s))
      in if ds = [] then None
         else case digitsValue 10 0 ds of
                None \<Rightarrow> None
              | Some n \<Rightarrow> Some (if neg then - int n else int n))"

definition parseExponentPart :: "string \<Rightarrow> int option" where
  "parseExponentPart s =
     (case s of
        [] \<Rightarrow> Some 0
      | c # cs \<Rightarrow> if c = CHR ''e'' \<or> c = CHR ''E'' then parseSignedInteger cs else None)"

definition scale10 :: "nat \<Rightarrow> int \<Rightarrow> rat" where
  "scale10 n e = (if 0 \<le> e then of_nat n * 10 ^ nat e else of_nat n / 10 ^ nat (- e))"

text \<open>
  StrUnsignedDecimalLiteral: \<^verbatim>\<open>Infinity\<close>, or digits with an optional fraction and an
  optional exponent; at least one digit before or after the point.
\<close>

definition parseUnsignedDecimal :: "string \<Rightarrow> jsnum" where
  "parseUnsignedDecimal s =
     (if s = ''Infinity'' then PosInf
      else
        let ip = takeWhile isDecimalDigit s;
            r1 = dropWhile isDecimalDigit s;
            (fp, r2) =
              (case r1 of
                 c # cs \<Rightarrow>
                   if c = CHR ''.'' then (takeWhile isDecimalDigit cs, dropWhile isDecimalDigit cs)
                   else ([], r1)
               | [] \<Rightarrow> ([], r1))
        in if ip = [] \<and> fp = [] then NaN
           else case (digitsValue 10 0 (ip @ fp), parseExponentPart r2) of
                  (Some n, Some e) \<Rightarrow> roundNumber (scale10 n (e - int (length fp)))
                | _ \<Rightarrow> NaN)"

definition negateNumber :: "jsnum \<Rightarrow> jsnum" where
  "negateNumber x =
     (case x of NaN \<Rightarrow> NaN | PosInf \<Rightarrow> NegInf | NegInf \<Rightarrow> PosInf | Num q \<Rightarrow> Num (- q))"

definition StringToNumber :: "string \<Rightarrow> jsnum" where
  "StringToNumber str =
     (let s = trimString str
      in if s = [] then Num 0
         else case parseNonDecimal s of
                Some n \<Rightarrow> roundNumber (of_nat n)
              | None \<Rightarrow>
                  (case s of
                     c # cs \<Rightarrow>
                       if c = CHR ''+'' then parseUnsignedDecimal cs
                       else if c = CHR ''-'' then negateNumber (parseUnsignedDecimal cs)
                       else parseUnsignedDecimal s
                   | [] \<Rightarrow> Num 0))"

text \<open>
  ToNumber (ECMA-262 7.1.4). A Date object converts through its \<^verbatim>\<open>valueOf\<close>, the time
  value.
\<close>

definition timevalNumber :: "timeval \<Rightarrow> jsnum" where
  "timevalNumber t = (case t of None \<Rightarrow> NaN | Some ms \<Rightarrow> Num (of_int ms))"

fun ToNumber :: "heap \<Rightarrow> jsval \<Rightarrow> jsnum" where
  "ToNumber h JUndefined = NaN"
| "ToNumber h JNull = Num 0"
| "ToNumber h (JBool b) = (if b then Num 1 else Num 0)"
| "ToNumber h (JNum x) = x"
| "ToNumber h (JStr s) = StringToNumber s"
| "ToNumber h (JDate a) = timevalNumber (deref h a)"

definition isNaN :: "jsnum \<Rightarrow> bool" where
  "isNaN x = (x = NaN)"

definition isFiniteNumber :: "jsnum \<Rightarrow> bool" where
  "isFiniteNumber x = (case x of Num _ \<Rightarrow> True | _ \<Rightarrow> False)"

subsection \<open>The validators\<close>

text \<open>
  A \<^verbatim>\<open>ValidationErrors\<close> object with its one key and message, or \<^verbatim>\<open>null\<close> (\<open>None\<close>).
  The argument is the control's value.
\<close>

type_synonym validationErrors = "(string \<times> string) option"

definition msgInvalidNumber :: string where
  "msgInvalidNumber = ''Por favor, insira um n'' @ [char_of (250::nat)] @ ''mero v''
     @ [char_of (225::nat)] @ ''lido.''"

definition numberValidator :: "heap \<Rightarrow> jsval \<Rightarrow> validationErrors" where
  "numberValidator h v =
     (if isNaN (ToNumber h v) then Some (''invalidNumber'', msgInvalidNumber) else None)"

subsection \<open>Dates (ECMA-262 21.4.1)\<close>

text \<open>
  What the language leaves to the implementation is a parameter of the model: how a string
  is parsed into a time value (only the ISO format is fixed by the standard), the offset of
  local time (from a UTC time when the flag is \<open>True\<close>, from a local time otherwise), and
  the text \<^verbatim>\<open>toString\<close> gives for a Date.
\<close>

record platform =
  dateParse :: "string \<Rightarrow> timeval"
  localTZA :: "int \<Rightarrow> bool \<Rightarrow> int"
  dateToString :: "timeval \<Rightarrow> string"

definition msPerDay :: int where
  "msPerDay = 86400000"

definition Day :: "int \<Rightarrow> int" where
  "Day t = t div msPerDay"

definition TimeWithinDay :: "int \<Rightarrow> int" where
  "TimeWithinDay t = t mod msPerDay"

definition DaysInYear :: "int \<Rightarrow> int" where
  "DaysInYear y =
     (if y mod 4 \<noteq> 0 then 365
      else if y mod 100 \<noteq> 0 then 366
      else if y mod 400 \<noteq> 0 then 365
      else 366)"

definition DayFromYear :: "int \<Rightarrow> int" where
  "DayFromYear y = 365 * (y - 1970) + (y - 1969) div 4 - (y - 1901) div 100 + (y - 1601) div 400"

text \<open>
  YearFromTime is the largest year whose first day is not after the time. The search goes
  up from a year that is not after it: no year has more than 366 days nor fewer than 365.
\<close>

function yearSearch :: "int \<Rightarrow> int \<Rightarrow> int" where
  "yearSearch d y = (if DayFromYear (y + 1) \<le> d then yearSearch d (y + 1) else y)"
  by pat_completeness auto

text \<open>
  Its termination is proved with the calendar lemmas, under \<open>termination yearSearch\<close>
  below: the first day of a year comes before the first day of the next.
\<close>

definition YearFromDay :: "int \<Rightarrow> int" where
  "YearFromDay d = yearSearch d (1970 + (if 0 \<le> d then d div 366 else d div 365))"

definition YearFromTime :: "int \<Rightarrow> int" where
  "YearFromTime t = YearFromDay (Day t)"

definition leapDays :: "int \<Rightarrow> int" where
  "leapDays y = (if DaysInYear y = 366 then 1 else 0)"

definition DayWithinYear :: "int \<Rightarrow> int" where
  "DayWithinYear t = Day t - DayFromYear (YearFromTime t)"

definition InLeapYear :: "int \<Rightarrow> int" where
  "InLeapYear t = leapDays (YearFromTime t)"

definition MonthFromTime :: "int \<Rightarrow> int" where
  "MonthFromTime t =
     (let d = DayWithinYear t; l = InLeapYear t
      in if d < 31 then 0
         else if d < 59 + l then 1
         else if d < 90 + l then 2
         else if d < 120 + l then 3
         else if d < 151 + l then 4
         else if d < 181 + l then 5
         else if d < 212 + l then 6
         else if d < 243 + l then 7
         else if d < 273 + l then 8
         else if d < 304 + l then 9
         else if d < 334 + l then 10
         else 11)"

definition DateFromTime :: "int \<Rightarrow> int" where
  "DateFromTime t =
     (let d = DayWithinYear t; l = InLeapYear t; m = MonthFromTime t
      in if m = 0 then d + 1
         else if m = 1 then d - 30
         else if m = 2 then d - 58 - l
         else if m = 3 then d - 89 - l
         else if m = 4 then d - 119 - l
         else if m = 5 then d - 150 - l
         else if m = 6 then d - 180 - l
         else if m = 7 then d - 211 - l
         else if m = 8 then d - 242 - l
         else if m = 9 then d - 272 - l
         else if m = 10 then d - 303 - l
         else d - 333 - l)"

text \<open>ToIntegerOrInfinity on a finite value: truncation towards zero.\<close>

definition truncateNumber :: "rat \<Rightarrow> int" where
  "truncateNumber q = (if 0 \<le> q then \<lfloor>q\<rfloor> else \<lceil>q\<rceil>)"

text \<open>The days of a year before its month \<open>mn\<close> (0 to 11), \<open>l\<close> being 1 in a leap year.\<close>

definition daysBeforeMonth :: "int \<Rightarrow> int \<Rightarrow> int" where
  "daysBeforeMonth mn l =
     (if mn = 0 then 0
      else if mn = 1 then 31
      else if mn = 2 then 59 + l
      else if mn = 3 then 90 + l
      else if mn = 4 then 120 + l
      else if mn = 5 then 151 + l
      else if mn = 6 then 181 + l
      else if mn = 7 then 212 + l
      else if mn = 8 then 243 + l
      else if mn = 9 then 273 + l
      else if mn = 10 then 304 + l
      else 334 + l)"

text \<open>
  MakeDay: the day number of the first of month \<open>mn\<close> of year \<open>ym\<close>, plus the date, less
  one. The standard asks for a time whose year is \<open>ym\<close>, whose month is \<open>mn\<close> and whose
  date is 1; \<open>civil_of_local_time\<close> below shows that this day is the one. Integers are unbounded here, so no argument is out of
  range; TimeClip removes what a Date cannot hold.
\<close>

definition firstOfMonth :: "int \<Rightarrow> int \<Rightarrow> int" where
  "firstOfMonth ym mn = DayFromYear ym + daysBeforeMonth mn (leapDays ym)"

definition MakeDay :: "jsnum \<Rightarrow> jsnum \<Rightarrow> jsnum \<Rightarrow> int option" where
  "MakeDay year month date =
     (case (year, month, date) of
        (Num yq, Num mq, Num dq) \<Rightarrow>
          (let y = truncateNumber yq; m = truncateNumber mq; dt = truncateNumber dq;
               ym = y + m div 12;
               mn = m mod 12
           in Some (firstOfMonth ym mn + dt - 1))
      | _ \<Rightarrow> None)"

definition MakeDate :: "int option \<Rightarrow> int \<Rightarrow> int option" where
  "MakeDate day time = (case day of None \<Rightarrow> None | Some d \<Rightarrow> Some (d * msPerDay + time))"

definition TimeClip :: "timeval \<Rightarrow> timeval" where
  "TimeClip time =
     (case time of
        None \<Rightarrow> None
      | Some t \<Rightarrow> if 8640000000000000 < \<bar>t\<bar> then None else Some t)"

text \<open>TimeClip of a Number: NaN and the infinities are no time, a finite value is truncated.\<close>

definition TimeClipNumber :: "jsnum \<Rightarrow> timeval" where
  "TimeClipNumber x =
     (case x of
        Num q \<Rightarrow> if 8640000000000000 < \<bar>q\<bar> then None else Some (truncateNumber q)
      | _ \<Rightarrow> None)"

definition LocalTime :: "platform \<Rightarrow> int \<Rightarrow> int" where
  "LocalTime P t = t + localTZA P t True"

definition UTC :: "platform \<Rightarrow> int option \<Rightarrow> int option" where
  "UTC P time = (case time of None \<Rightarrow> None | Some t \<Rightarrow> Some (t - localTZA P t False))"

text \<open>
  \<^verbatim>\<open>new Date(value)\<close> (21.4.2.1): a Date gives its time value; another value is made
  primitive, a string is parsed and anything else is converted to a Number and clipped.
  The new object is allocated after all others.
\<close>

definition dateValueOf :: "platform \<Rightarrow> heap \<Rightarrow> jsval \<Rightarrow> timeval" where
  "dateValueOf P h v =
     (case v of
        JDate a \<Rightarrow> deref h a
      | JStr s \<Rightarrow> dateParse P s
      | _ \<Rightarrow> TimeClipNumber (ToNumber h v))"

definition newDate :: "platform \<Rightarrow> heap \<Rightarrow> jsval \<Rightarrow> heap \<times> nat" where
  "newDate P h v = (h @ [dateValueOf P h v], length h)"

text \<open>\<^verbatim>\<open>getMonth\<close> (21.4.4.8): NaN for an invalid date, otherwise the month of local time.\<close>

definition getMonth :: "platform \<Rightarrow> heap \<Rightarrow> nat \<Rightarrow> int option" where
  "getMonth P h a =
     (case deref h a of None \<Rightarrow> None | Some t \<Rightarrow> Some (MonthFromTime (LocalTime P t)))"

text \<open>
  \<^verbatim>\<open>setMonth(month)\<close> (21.4.4.25): the month is converted to a Number first; an invalid
  date stays invalid; otherwise the date is rebuilt in local time from its year, the new
  month, its date and its time within the day, and stored in the object.
\<close>

definition setMonthValue :: "platform \<Rightarrow> int \<Rightarrow> jsnum \<Rightarrow> timeval" where
  "setMonthValue P t m =
     (let lt = LocalTime P t;
          newDate = MakeDate (MakeDay (Num (of_int (YearFromTime lt))) m
                       (Num (of_int (DateFromTime lt)))) (TimeWithinDay lt)
      in TimeClip (UTC P newDate))"

definition setMonth :: "platform \<Rightarrow> heap \<Rightarrow> nat \<Rightarrow> jsval \<Rightarrow> heap" where
  "setMonth P h a month =
     (let m = ToNumber h month
      in case deref h a of
           None \<Rightarrow> h
         | Some t \<Rightarrow> h[a := setMonthValue P t m])"

text \<open>
  The operator \<^verbatim>\<open>+\<close> with an integral Number or NaN on the left, as \<^verbatim>\<open>getMonth\<close> returns
  it (13.15.3): a string on the right, or a Date, which is made primitive through
  \<^verbatim>\<open>toString\<close>, gives the concatenation of the two texts; anything else is added as a
  Number.
\<close>

fun natToString :: "nat \<Rightarrow> string" where
  "natToString n =
     (if n < 10 then [char_of (48 + n)] else natToString (n div 10) @ [char_of (48 + n mod 10)])"

definition integralToString :: "int option \<Rightarrow> string" where
  "integralToString x =
     (case x of
        None \<Rightarrow> ''NaN''
      | Some n \<Rightarrow> if n < 0 then CHR ''-'' # natToString (nat (- n)) else natToString (nat n))"

definition numberAdd :: "jsnum \<Rightarrow> jsnum \<Rightarrow> jsnum" where
  "numberAdd x y =
     (case (x, y) of
        (NaN, _) \<Rightarrow> NaN
      | (_, NaN) \<Rightarrow> NaN
      | (PosInf, NegInf) \<Rightarrow> NaN
      | (NegInf, PosInf) \<Rightarrow> NaN
      | (PosInf, _) \<Rightarrow> PosInf
      | (NegInf, _) \<Rightarrow> NegInf
      | (_, PosInf) \<Rightarrow> PosInf
      | (_, NegInf) \<Rightarrow> NegInf
      | (Num a, Num b) \<Rightarrow> roundNumber (a + b))"

definition addToIntegral :: "platform \<Rightarrow> heap \<Rightarrow> int option \<Rightarrow> jsval \<Rightarrow> jsval" where
  "addToIntegral P h x v =
     (case v of
        JStr s \<Rightarrow> JStr (integralToString x @ s)
      | JDate a \<Rightarrow> JStr (integralToString x @ dateToString P (deref h a))
      | _ \<Rightarrow> JNum (numberAdd (timevalNumber x) (ToNumber h v)))"

definition msgInvalidDate :: string where
  "msgInvalidDate = ''Por favor, insira uma data v'' @ [char_of (225::nat)] @ ''lida.''"

text \<open>
  \<^verbatim>\<open>dateValidator\<close> builds a Date from the control's value and looks at its time value.
  The Date it allocates is dropped on return, so the heap is only read.
\<close>

definition dateValidator :: "platform \<Rightarrow> heap \<Rightarrow> jsval \<Rightarrow> validationErrors" where
  "dateValidator P h v =
     (let (h', date) = newDate P h v
      in if isNaN (timevalNumber (deref h' date)) then Some (''invalidDate'', msgInvalidDate)
         else None)"

definition stringValidator :: "jsval \<Rightarrow> validationErrors" where
  "stringValidator v =
     (case v of
        JStr s \<Rightarrow> None
      | _ \<Rightarrow> Some (''invalidString'', ''Por favor, insira um texto v'' @ [char_of (225::nat)] @ ''lido.''))"

subsection \<open>Angular reactive forms\<close>

text \<open>
  A \<^verbatim>\<open>FormControl\<close> holds a value, is enabled or disabled, and knows its validators. A
  \<^verbatim>\<open>FormGroup\<close> holds its controls by name and its \<^verbatim>\<open>value\<close>, an object that
  \<^verbatim>\<open>updateValueAndValidity\<close> builds anew from the controls: the enabled ones, or all of
  them when the group is disabled, which it is when none is enabled. Whoever reads
  \<^verbatim>\<open>form.value\<close> gets this very object, not a copy.
\<close>

datatype validatorFn = Required | NumberValidator | StringValidator | DateValidator

record control =
  ctlValue :: jsval
  ctlDisabled :: bool
  ctlValidators :: "validatorFn list"

record form =
  controls :: "(string \<times> control) list"
  formValue :: jsobj
  formDisabled :: bool

definition allControlsDisabled :: "form \<Rightarrow> bool" where
  "allControlsDisabled f =
     (if list_ex (\<lambda>(name, c). \<not> ctlDisabled c) (controls f) then False
      else controls f \<noteq> [] \<or> formDisabled f)"

definition reduceValue :: "(string \<times> control) list \<Rightarrow> bool \<Rightarrow> jsobj" where
  "reduceValue cs groupDisabled =
     map (\<lambda>(name, c). (name, ctlValue c))
       (filter (\<lambda>(name, c). \<not> ctlDisabled c \<or> groupDisabled) cs)"

definition updateValueAndValidity :: "form \<Rightarrow> form" where
  "updateValueAndValidity f =
     (let dis = allControlsDisabled f
      in f\<lparr>formValue := reduceValue (controls f) dis, formDisabled := dis\<rparr>)"

text \<open>\<^verbatim>\<open>fb.group\<close>: the controls as configured, and the first \<^verbatim>\<open>value\<close>.\<close>

definition group :: "(string \<times> control) list \<Rightarrow> form" where
  "group cs = updateValueAndValidity \<lparr>controls = cs, formValue = [], formDisabled = False\<rparr>"

text \<open>
  \<^verbatim>\<open>patchValue\<close>: each key of the object that names a control sets that control's value,
  enabled or not; a key that names none is skipped; then the \<^verbatim>\<open>value\<close> is rebuilt.
\<close>

definition patchControl :: "(string \<times> control) list \<Rightarrow> string \<times> jsval \<Rightarrow> (string \<times> control) list" where
  "patchControl cs kv =
     (case map_of cs (fst kv) of
        None \<Rightarrow> cs
      | Some c \<Rightarrow> AList.update (fst kv) (c\<lparr>ctlValue := snd kv\<rparr>) cs)"

definition patchValue :: "form \<Rightarrow> jsobj \<Rightarrow> form" where
  "patchValue f ob = updateValueAndValidity (f\<lparr>controls := foldl patchControl (controls f) ob\<rparr>)"

text \<open>\<^verbatim>\<open>Validators.required\<close> and the errors of a control, in the order of its validators.\<close>

definition requiredValidator :: "jsval \<Rightarrow> validationErrors" where
  "requiredValidator v =
     (if v = JUndefined \<or> v = JNull \<or> v = JStr [] then Some (''required'', ''true'') else None)"

definition runValidator :: "platform \<Rightarrow> heap \<Rightarrow> jsval \<Rightarrow> validatorFn \<Rightarrow> validationErrors" where
  "runValidator P h v fn =
     (case fn of
        Required \<Rightarrow> requiredValidator v
      | NumberValidator \<Rightarrow> numberValidator h v
      | StringValidator \<Rightarrow> stringValidator v
      | DateValidator \<Rightarrow> dateValidator P h v)"

definition controlErrors :: "platform \<Rightarrow> heap \<Rightarrow> control \<Rightarrow> (string \<times> string) list" where
  "controlErrors P h c =
     List.map_filter (\<lambda>fn. runValidator P h (ctlValue c) fn) (ctlValidators c)"

subsection \<open>The collaborators\<close>

text \<open>
  What the component does to its collaborators is recorded in order: the calls on
  \<^verbatim>\<open>ProdutoService\<close>, \<^verbatim>\<open>snackBar.open\<close> with its message, action and duration,
  \<^verbatim>\<open>dialog.closeAll\<close> and \<^verbatim>\<open>console.error\<close>.
\<close>

datatype effect =
    GetProdutoById jsnum
  | UpdateProduto jsobj
  | AddProduto jsobj
  | SnackBarOpen string string nat
  | DialogCloseAll
  | ConsoleError jsval

text \<open>
  An observable, as far as a subscriber sees it: the values it emits, and whether it then
  completes, fails with an error, or does neither.
\<close>

datatype ending = Complete | Failure jsval | Pending

datatype 'a observable = Observable (obsValues: "'a list") (obsEnding: ending)

text \<open>
  \<^verbatim>\<open>ProdutoService\<close> is not part of the component: the observables its operations return
  are parameters. A fetched product is an object, or \<^verbatim>\<open>null\<close> or \<^verbatim>\<open>undefined\<close> (\<open>None\<close>).
\<close>

record produtoService =
  getProdutoById :: "jsnum \<Rightarrow> jsobj option observable"
  updateProduto :: "jsobj \<Rightarrow> unit observable"
  addProduto :: "jsobj \<Rightarrow> unit observable"

subsection \<open>The component\<close>

record state =
  produtoForm :: form
  produtoId :: jsnum
  isEditing :: bool
  jsHeap :: heap
  effects :: "effect list"

definition emit :: "effect \<Rightarrow> state \<Rightarrow> state" where
  "emit e s = s\<lparr>effects := effects s @ [e]\<rparr>"

text \<open>
  \<^verbatim>\<open>subscribe(next, error)\<close>: \<open>next\<close> runs for each value, then \<open>error\<close> if the observable
  fails. With no error callback the failure changes nothing in the component.
\<close>

definition subscribe ::
  "'a observable \<Rightarrow> ('a \<Rightarrow> state \<Rightarrow> state) \<Rightarrow> (jsval \<Rightarrow> state \<Rightarrow> state) \<Rightarrow> state \<Rightarrow> state" where
  "subscribe ob next error s =
     (case ob of
        Observable vs e \<Rightarrow>
          (let s' = foldl (\<lambda>st v. next v st) s vs
           in case e of Failure err \<Rightarrow> error err s' | _ \<Rightarrow> s'))"

text \<open>The state a new component starts in: the property initialisers of the class.\<close>

definition newControl :: "jsval \<Rightarrow> bool \<Rightarrow> validatorFn list \<Rightarrow> control" where
  "newControl v dis fns = \<lparr>ctlValue = v, ctlDisabled = dis, ctlValidators = fns\<rparr>"

definition initialForm :: form where
  "initialForm = group
     [(''nome'', newControl (JStr []) False [Required]),
      (''dataCompra'', newControl (JStr []) False [Required]),
      (''duracaoGarantiaMeses'', newControl (JStr []) False [Required]),
      (''dataFimGarantia'', newControl (JStr []) True [])]"

definition initialState :: state where
  "initialState =
     \<lparr>produtoForm = initialForm, produtoId = Num 0, isEditing = False, jsHeap = [], effects = []\<rparr>"

definition createForm :: "state \<Rightarrow> state" where
  "createForm s = s\<lparr>produtoForm := group
     [(''id'', newControl (JStr []) False [Required, NumberValidator]),
      (''nome'', newControl (JStr []) False [Required, StringValidator]),
      (''dataCompra'', newControl (JStr []) False [Required, DateValidator]),
      (''duracaoGarantiaMeses'', newControl (JStr []) False [Required, NumberValidator])]\<rparr>"

text \<open>
  \<^verbatim>\<open>checkEditMode\<close>, for the route parameters in force when the component starts: the
  router emits them on subscription. \<^verbatim>\<open>switchMap\<close> turns them into the observable of the
  fetched product, or into one that emits nothing, and each emitted product patches the
  form.
\<close>

definition checkEditMode :: "produtoService \<Rightarrow> jsobj \<Rightarrow> state \<Rightarrow> state" where
  "checkEditMode svc params s =
     (if truthy (obj_get params ''id'') then
        let s1 = s\<lparr>isEditing := True\<rparr>;
            s2 = s1\<lparr>produtoId := ToNumber (jsHeap s1) (obj_get params ''id'')\<rparr>;
            s3 = emit (GetProdutoById (produtoId s2)) s2
        in subscribe (getProdutoById svc (produtoId s2))
             (\<lambda>produto st.
                case produto of
                  Some ob \<Rightarrow>
                    if isEditing st then st\<lparr>produtoForm := patchValue (produtoForm st) ob\<rparr>
                    else st
                | None \<Rightarrow> st)
             (\<lambda>err st. st)
             s3
      else s)"

definition ngOnInit :: "produtoService \<Rightarrow> jsobj \<Rightarrow> state \<Rightarrow> state" where
  "ngOnInit svc params s = checkEditMode svc params (createForm s)"

text \<open>
  \<^verbatim>\<open>calcularDataFimGarantia\<close>. The new Date is a copy of the purchase date; \<^verbatim>\<open>setMonth\<close>
  works on the copy, and the copy is what is patched into the form.
\<close>

definition calcularDataFimGarantia :: "platform \<Rightarrow> state \<Rightarrow> state" where
  "calcularDataFimGarantia P s =
     (let dataCompra = obj_get (formValue (produtoForm s)) ''dataCompra'';
          duracaoMeses = obj_get (formValue (produtoForm s)) ''duracaoGarantiaMeses''
      in if truthy dataCompra \<and> truthy duracaoMeses then
           let (h1, dataFimGarantia) = newDate P (jsHeap s) dataCompra;
               h2 = setMonth P h1 dataFimGarantia
                      (addToIntegral P h1 (getMonth P h1 dataFimGarantia) duracaoMeses)
           in s\<lparr>jsHeap := h2,
                produtoForm := patchValue (produtoForm s) [(''dataFimGarantia'', JDate dataFimGarantia)]\<rparr>
         else s)"

text \<open>
  \<^verbatim>\<open>onSubmit\<close>. \<open>produto\<close> is the form's \<^verbatim>\<open>value\<close> object itself, so the assignment of the
  id in edit mode is an assignment in that object; the service is called with it.
\<close>

definition onUpdateSuccess :: "state \<Rightarrow> state" where
  "onUpdateSuccess s =
     emit DialogCloseAll (emit (SnackBarOpen ''Produto atualizado com sucesso'' ''Fechar'' 2000) s)"

definition onUpdateError :: "jsval \<Rightarrow> state \<Rightarrow> state" where
  "onUpdateError err s =
     emit (SnackBarOpen ''Erro ao atualizar o produto'' ''Fechar'' 2000) (emit (ConsoleError err) s)"

definition onAddSuccess :: "state \<Rightarrow> state" where
  "onAddSuccess s =
     emit DialogCloseAll (emit (SnackBarOpen ''Produto cadastrado com sucesso'' ''Fechar'' 2000) s)"

definition onAddError :: "jsval \<Rightarrow> state \<Rightarrow> state" where
  "onAddError err s =
     emit (SnackBarOpen ''Erro ao cadastrar o produto'' ''Fechar'' 2000) (emit (ConsoleError err) s)"

definition onSubmit :: "produtoService \<Rightarrow> state \<Rightarrow> state" where
  "onSubmit svc s =
     (let produto = formValue (produtoForm s)
      in if isEditing s then
           let produto' = obj_set produto ''id'' (JNum (produtoId s));
               s1 = s\<lparr>produtoForm := (produtoForm s)\<lparr>formValue := produto'\<rparr>\<rparr>;
               s2 = emit (UpdateProduto produto') s1
           in subscribe (updateProduto svc produto') (\<lambda>u. onUpdateSuccess) onUpdateError s2
         else
           let s1 = emit (AddProduto produto) s
           in subscribe (addProduto svc produto) (\<lambda>u. onAddSuccess) onAddError s1)"

text \<open>The calls on the service among some effects, and the effects a step has added.\<close>

definition isServiceCall :: "effect \<Rightarrow> bool" where
  "isServiceCall e =
     (case e of GetProdutoById n \<Rightarrow> True | UpdateProduto p \<Rightarrow> True | AddProduto p \<Rightarrow> True | _ \<Rightarrow> False)"

definition serviceCalls :: "effect list \<Rightarrow> effect list" where
  "serviceCalls es = filter isServiceCall es"

definition newEffects :: "state \<Rightarrow> state \<Rightarrow> effect list" where
  "newEffects s s' = drop (length (effects s)) (effects s')"

text \<open>
  Names for what a submission does: the effects of a failure, the failure notification of
  the mode, and the operation the mode calls.
\<close>

definition failureEffects :: "string \<Rightarrow> ending \<Rightarrow> effect list" where
  "failureEffects msg e =
     (case e of Failure err \<Rightarrow> [ConsoleError err, SnackBarOpen msg ''Fechar'' 2000] | _ \<Rightarrow> [])"

definition failureNotification :: "state \<Rightarrow> effect" where
  "failureNotification s =
     SnackBarOpen (if isEditing s then ''Erro ao atualizar o produto''
                   else ''Erro ao cadastrar o produto'') ''Fechar'' 2000"

definition submittedOperation :: "produtoService \<Rightarrow> state \<Rightarrow> unit observable" where
  "submittedOperation svc s =
     (if isEditing s
      then updateProduto svc (obj_set (formValue (produtoForm s)) ''id'' (JNum (produtoId s)))
      else addProduto svc (formValue (produtoForm s)))"

subsection \<open>The calendar, and a platform for the examples\<close>

text \<open>The days of month \<open>mn\<close> (0 to 11), \<open>l\<close> being 1 in a leap year.\<close>

definition daysInMonth :: "int \<Rightarrow> int \<Rightarrow> int" where
  "daysInMonth mn l =
     (if mn = 1 then 28 + l
      else if mn = 3 \<or> mn = 5 \<or> mn = 8 \<or> mn = 10 then 30
      else 31)"

text \<open>
  The concrete examples run on a platform in UTC whose parser knows the date-only ISO
  form \<^verbatim>\<open>YYYY-MM-DD\<close>, read as midnight UTC, and nothing else. Its text for a Date is a
  stand-in: only that it is no numeral matters.
\<close>

definition parseIsoDate :: "string \<Rightarrow> timeval" where
  "parseIsoDate s =
     (case s of
        [y1, y2, y3, y4, s1, m1, m2, s2, d1, d2] \<Rightarrow>
          (if s1 = CHR ''-'' \<and> s2 = CHR ''-'' then
             (case (digitsValue 10 0 [y1, y2, y3, y4], digitsValue 10 0 [m1, m2],
                    digitsValue 10 0 [d1, d2]) of
                (Some y, Some m, Some d) \<Rightarrow>
                  if 1 \<le> m \<and> m \<le> 12 \<and> 1 \<le> d
                     \<and> int d \<le> daysInMonth (int m - 1) (leapDays (int y))
                  then Some ((firstOfMonth (int y) (int m - 1) + int d - 1) * msPerDay)
                  else None
              | _ \<Rightarrow> None)
           else None)
      | _ \<Rightarrow> None)"

definition examplePlatform :: platform where
  "examplePlatform =
     \<lparr>dateParse = parseIsoDate,
      localTZA = (\<lambda>t isUTC. 0),
      dateToString = (\<lambda>t. case t of None \<Rightarrow> ''Invalid Date'' | Some ms \<Rightarrow> ''Date '' @ integralToString (Some ms))\<rparr>"

text \<open>
  A calendar date: a month from 1 to 12 and a day that the month has in that year. And a
  platform like the first, but whose parser takes any day from 1 to 31 in any month and
  lets the days a month does not have roll over into the next, as V8 does.
\<close>

definition validCalendarDate :: "int \<Rightarrow> int \<Rightarrow> int \<Rightarrow> bool" where
  "validCalendarDate y m d =
     (1 \<le> m \<and> m \<le> 12 \<and> 1 \<le> d \<and> d \<le> daysInMonth (m - 1) (leapDays y))"

definition parseIsoDateRollover :: "string \<Rightarrow> timeval" where
  "parseIsoDateRollover s =
     (case s of
        [y1, y2, y3, y4, s1, m1, m2, s2, d1, d2] \<Rightarrow>
          (if s1 = CHR ''-'' \<and> s2 = CHR ''-'' then
             (case (digitsValue 10 0 [y1, y2, y3, y4], digitsValue 10 0 [m1, m2],
                    digitsValue 10 0 [d1, d2]) of
                (Some y, Some m, Some d) \<Rightarrow>
                  if 1 \<le> m \<and> m \<le> 12 \<and> 1 \<le> d \<and> d \<le> 31
                  then Some ((firstOfMonth (int y) (int m - 1) + int d - 1) * msPerDay)
                  else None
              | _ \<Rightarrow> None)
           else None)
      | _ \<Rightarrow> None)"

definition rolloverPlatform :: platform where
  "rolloverPlatform = examplePlatform\<lparr>dateParse := parseIsoDateRollover\<rparr>"

text \<open>A service whose operations all fail, and one whose operations succeed.\<close>

definition failingService :: produtoService where
  "failingService =
     \<lparr>getProdutoById = (\<lambda>n. Observable [] (Failure (JStr ''not found''))),
      updateProduto = (\<lambda>p. Observable [] (Failure (JStr ''update failed''))),
      addProduto = (\<lambda>p. Observable [] (Failure (JStr ''add failed'')))\<rparr>"

definition workingService :: produtoService where
  "workingService =
     \<lparr>getProdutoById = (\<lambda>n. Observable
        [Some [(''id'', JNum n), (''nome'', JStr ''TV''), (''dataCompra'', JStr ''2024-01-15''),
               (''duracaoGarantiaMeses'', JNum (Num 12))]] Complete),
      updateProduto = (\<lambda>p. Observable [()] Complete),
      addProduto = (\<lambda>p. Observable [()] Complete)\<rparr>"

text \<open>
  The form of \<^verbatim>\<open>createForm\<close> filled in, in a component that edits product 7 and in one
  that creates a product.
\<close>

definition filledForm :: form where
  "filledForm = patchValue (produtoForm (createForm initialState))
     [(''id'', JStr ''3''), (''nome'', JStr ''TV''), (''dataCompra'', JStr ''2024-01-15''),
      (''duracaoGarantiaMeses'', JNum (Num 12))]"

definition editingState :: state where
  "editingState =
     \<lparr>produtoForm = filledForm, produtoId = Num 7, isEditing = True, jsHeap = [], effects = []\<rparr>"

definition creatingState :: state where
  "creatingState =
     \<lparr>produtoForm = filledForm, produtoId = Num 0, isEditing = False, jsHeap = [], effects = []\<rparr>"

text \<open>
  The form of the property initialiser, which has the field \<^verbatim>\<open>dataFimGarantia\<close>, holding
  the Date 2024-01-15 (midnight UTC) and a duration.
\<close>

definition warrantyState :: "jsval \<Rightarrow> state" where
  "warrantyState duracao =
     \<lparr>produtoForm = patchValue initialForm
        [(''nome'', JStr ''TV''), (''dataCompra'', JDate 0), (''duracaoGarantiaMeses'', duracao)],
      produtoId = Num 0, isEditing = False, jsHeap = [Some 1705276800000], effects = []\<rparr>"

section \<open>The calendar functions are right\<close>

text \<open>
  The year found by the search is the year of the day, and a local time made of a year, a
  month, a date of that month and a time within the day has exactly these fields.
\<close>

text \<open>A year later is 365 or 366 days later, so the search for the year of a day ends.\<close>

lemma div_succ:
  fixes a k :: int
  assumes k: "0 < k"
  shows "(a + 1) div k = a div k + (if (a + 1) mod k = 0 then 1 else 0)"
proof -
  have a: "a = k * (a div k) + a mod k" by simp
  have r: "0 \<le> a mod k" "a mod k < k" using k by simp_all
  show ?thesis
  proof (cases "a mod k = k - 1")
    case True
    have "a + 1 = k * (a div k + 1)" using a True by (simp add: algebra_simps)
    then have "(a + 1) div k = a div k + 1" "(a + 1) mod k = 0" using k
      by (metis nonzero_mult_div_cancel_left less_irrefl, metis mod_mult_self1_is_0)
    then show ?thesis by simp
  next
    case False
    then have lt: "a mod k + 1 < k" using r by linarith
    have "a + 1 = k * (a div k) + (a mod k + 1)" using a by linarith
    then have "(a + 1) div k = a div k" "(a + 1) mod k = a mod k + 1" using lt r k
      by (metis div_pos_pos_trivial add_nonneg_nonneg zero_le_one div_mult_self2 add.commute less_irrefl add_0,
          metis mod_pos_pos_trivial add_nonneg_nonneg zero_le_one mod_mult_self4)
    then show ?thesis using r by simp
  qed
qed

lemma mod_shift:
  fixes k c y :: int
  shows "k dvd c \<Longrightarrow> (y - c) mod k = 0 \<longleftrightarrow> y mod k = 0"
  by (simp add: mod_eq_0_iff_dvd dvd_diff_left_iff)

lemma mod_0_trans:
  fixes j k y :: int
  assumes "j dvd k" and "y mod k = 0"
  shows "y mod j = 0"
proof -
  from assms(2) have "k dvd y" by (simp add: mod_eq_0_iff_dvd)
  with assms(1) have "j dvd y" by (rule dvd_trans)
  then show ?thesis by (simp add: mod_eq_0_iff_dvd)
qed

lemma DayFromYear_step: "DayFromYear (y + 1) = DayFromYear y + DaysInYear y"
proof -
  have e4: "(y - 1969 + 1) mod 4 = 0 \<longleftrightarrow> y mod 4 = 0"
    using mod_shift [of 4 1968 y] by simp
  have e100: "(y - 1901 + 1) mod 100 = 0 \<longleftrightarrow> y mod 100 = 0"
    using mod_shift [of 100 1900 y] by simp
  have e400: "(y - 1601 + 1) mod 400 = 0 \<longleftrightarrow> y mod 400 = 0"
    using mod_shift [of 400 1600 y] by simp
  have d4: "(y + 1 - 1969) div 4 = (y - 1969) div 4 + (if y mod 4 = 0 then 1 else 0)"
    using div_succ [of 4 "y - 1969"] e4 by (simp add: algebra_simps)
  have d100: "(y + 1 - 1901) div 100 = (y - 1901) div 100 + (if y mod 100 = 0 then 1 else 0)"
    using div_succ [of 100 "y - 1901"] e100 by (simp add: algebra_simps)
  have d400: "(y + 1 - 1601) div 400 = (y - 1601) div 400 + (if y mod 400 = 0 then 1 else 0)"
    using div_succ [of 400 "y - 1601"] e400 by (simp add: algebra_simps)
  have i1: "y mod 100 = 0 \<Longrightarrow> y mod 4 = 0"
    by (rule mod_0_trans [of 4 100]) simp_all
  have i2: "y mod 400 = 0 \<Longrightarrow> y mod 100 = 0"
    by (rule mod_0_trans [of 100 400]) simp_all
  show ?thesis
    unfolding DayFromYear_def DaysInYear_def d4 d100 d400
    using i1 i2 by auto
qed

lemma DaysInYear_bounds: "365 \<le> DaysInYear y" "DaysInYear y \<le> 366"
  by (simp_all add: DaysInYear_def)

lemma DayFromYear_less_succ: "DayFromYear y < DayFromYear (y + 1)"
  using DaysInYear_bounds(1) [of y] by (simp add: DayFromYear_step)

termination yearSearch
proof (relation "measure (\<lambda>(d, y). nat (d - DayFromYear y))")
  show "wf (measure (\<lambda>(d, y). nat (d - DayFromYear y)))"
    by simp
next
  fix d y :: int
  assume "DayFromYear (y + 1) \<le> d"
  then show "((d, y + 1), (d, y)) \<in> measure (\<lambda>(d, y). nat (d - DayFromYear y))"
    using DayFromYear_less_succ [of y] by simp
qed

lemma DayFromYear_mono_add: "DayFromYear y \<le> DayFromYear (y + int n)"
proof (induction n)
  case 0
  show ?case by simp
next
  case (Suc n)
  have "DayFromYear (y + int n) < DayFromYear (y + int n + 1)"
    by (rule DayFromYear_less_succ)
  also have "y + int n + 1 = y + int (Suc n)" by simp
  finally show ?case using Suc by linarith
qed

lemma DayFromYear_mono: "y \<le> z \<Longrightarrow> DayFromYear y \<le> DayFromYear z"
  using DayFromYear_mono_add [of y "nat (z - y)"] by simp

lemma yearSearch_spec:
  "DayFromYear y \<le> d \<Longrightarrow>
     DayFromYear (yearSearch d y) \<le> d \<and> d < DayFromYear (yearSearch d y + 1)"
proof (induction d y rule: yearSearch.induct)
  case (1 d y)
  show ?case
  proof (cases "DayFromYear (y + 1) \<le> d")
    case True
    with "1.IH" show ?thesis by simp
  next
    case False
    with "1.prems" show ?thesis by simp
  qed
qed

lemma DayFromYear_upper: "DayFromYear (1970 + int n) \<le> 366 * int n"
proof (induction n)
  case 0
  show ?case by (simp add: DayFromYear_def)
next
  case (Suc n)
  have "DayFromYear (1970 + int n + 1) = DayFromYear (1970 + int n) + DaysInYear (1970 + int n)"
    by (rule DayFromYear_step)
  also have "1970 + int n + 1 = 1970 + int (Suc n)" by simp
  finally show ?case
    using Suc DaysInYear_bounds(2) [of "1970 + int n"] by simp
qed

lemma DayFromYear_lower: "DayFromYear (1970 - int n) \<le> - 365 * int n"
proof (induction n)
  case 0
  show ?case by (simp add: DayFromYear_def)
next
  case (Suc n)
  have "DayFromYear (1970 - int (Suc n) + 1) =
          DayFromYear (1970 - int (Suc n)) + DaysInYear (1970 - int (Suc n))"
    by (rule DayFromYear_step)
  moreover have "1970 - int (Suc n) + 1 = 1970 - int n" by simp
  ultimately show ?case
    using Suc DaysInYear_bounds(1) [of "1970 - int (Suc n)"] by simp
qed

lemma yearSearch_start:
  "DayFromYear (1970 + (if 0 \<le> d then d div 366 else d div 365)) \<le> d"
proof (cases "0 \<le> d")
  case True
  then have "0 \<le> d div 366" by simp
  then have "DayFromYear (1970 + d div 366) \<le> 366 * (d div 366)"
    using DayFromYear_upper [of "nat (d div 366)"] by simp
  moreover have "366 * (d div 366) \<le> d"
    using mult_div_mod_eq [of 366 d] pos_mod_sign [of 366 d] by linarith
  ultimately show ?thesis using True by simp
next
  case False
  then have "d div 365 < 0" by (simp add: neg_imp_zdiv_neg_iff)
  then have "d div 365 \<le> 0" by simp
  then have "DayFromYear (1970 + d div 365) \<le> 365 * (d div 365)"
    using DayFromYear_lower [of "nat (- (d div 365))"] by simp
  moreover have "365 * (d div 365) \<le> d"
    using mult_div_mod_eq [of 365 d] pos_mod_sign [of 365 d] by linarith
  ultimately show ?thesis using False by simp
qed

lemma YearFromDay_spec:
  "DayFromYear (YearFromDay d) \<le> d \<and> d < DayFromYear (YearFromDay d + 1)"
  unfolding YearFromDay_def by (rule yearSearch_spec) (rule yearSearch_start)

lemma YearFromDay_unique:
  assumes "DayFromYear y \<le> d" and "d < DayFromYear (y + 1)"
  shows "YearFromDay d = y"
proof (rule ccontr)
  assume ne: "YearFromDay d \<noteq> y"
  let ?z = "YearFromDay d"
  have z: "DayFromYear ?z \<le> d" "d < DayFromYear (?z + 1)"
    using YearFromDay_spec [of d] by simp_all
  show False
  proof (cases "?z < y")
    case True
    then have "DayFromYear (?z + 1) \<le> DayFromYear y" by (intro DayFromYear_mono) simp
    with z(2) assms(1) show False by simp
  next
    case False
    with ne have "y + 1 \<le> ?z" by simp
    then have "DayFromYear (y + 1) \<le> DayFromYear ?z" by (rule DayFromYear_mono)
    with z(1) assms(2) show False by simp
  qed
qed

lemma YearFromDay_in_year:
  "0 \<le> k \<Longrightarrow> k < DaysInYear y \<Longrightarrow> YearFromDay (DayFromYear y + k) = y"
  by (rule YearFromDay_unique) (simp_all add: DayFromYear_step)

lemma leapDays_cases: "leapDays y = 0 \<or> leapDays y = 1"
  by (simp add: leapDays_def)

lemma DaysInYear_leapDays: "DaysInYear y = 365 + leapDays y"
  by (simp add: leapDays_def DaysInYear_def)

lemma month_cases:
  fixes mn :: int
  assumes "0 \<le> mn" and "mn \<le> 11"
  shows "mn = 0 \<or> mn = 1 \<or> mn = 2 \<or> mn = 3 \<or> mn = 4 \<or> mn = 5 \<or> mn = 6 \<or> mn = 7
           \<or> mn = 8 \<or> mn = 9 \<or> mn = 10 \<or> mn = 11"
  using assms by arith

lemma Day_of_day_time:
  assumes "0 \<le> w" and "w < msPerDay"
  shows "Day (d * msPerDay + w) = d" and "TimeWithinDay (d * msPerDay + w) = w"
proof -
  have pos: "0 < msPerDay" by (simp add: msPerDay_def)
  show "Day (d * msPerDay + w) = d"
    unfolding Day_def using assms pos by (simp add: div_pos_pos_trivial)
  show "TimeWithinDay (d * msPerDay + w) = w"
    unfolding TimeWithinDay_def using assms pos by (simp add: mod_pos_pos_trivial)
qed

lemma dayWithinYear_range:
  assumes "0 \<le> mn" and "mn \<le> 11" and "1 \<le> dt" and "dt \<le> daysInMonth mn l" and "l = 0 \<or> l = 1"
  shows "0 \<le> daysBeforeMonth mn l + dt - 1" and "daysBeforeMonth mn l + dt - 1 < 365 + l"
proof -
  note c = month_cases [OF assms(1,2)]
  show "0 \<le> daysBeforeMonth mn l + dt - 1"
    using c assms(3,5) by (elim disjE) (simp_all add: daysBeforeMonth_def)
  show "daysBeforeMonth mn l + dt - 1 < 365 + l"
    using c assms(4,5) by (elim disjE) (simp_all add: daysBeforeMonth_def daysInMonth_def)
qed

lemma month_of_dayWithinYear:
  assumes "0 \<le> mn" and "mn \<le> 11" and "1 \<le> dt" and "dt \<le> daysInMonth mn l" and "l = 0 \<or> l = 1"
    and "d = daysBeforeMonth mn l + dt - 1"
  shows "(if d < 31 then 0
         else if d < 59 + l then 1
         else if d < 90 + l then 2
         else if d < 120 + l then 3
         else if d < 151 + l then 4
         else if d < 181 + l then 5
         else if d < 212 + l then 6
         else if d < 243 + l then 7
         else if d < 273 + l then 8
         else if d < 304 + l then 9
         else if d < 334 + l then 10
         else 11) = mn"
  using month_cases [OF assms(1,2)] assms(3,4,5,6)
  by (elim disjE) (simp_all add: daysBeforeMonth_def daysInMonth_def)

lemma date_of_dayWithinYear:
  assumes "0 \<le> mn" and "mn \<le> 11" and "d = daysBeforeMonth mn l + dt - 1"
  shows "(if mn = 0 then d + 1
         else if mn = 1 then d - 30
         else if mn = 2 then d - 58 - l
         else if mn = 3 then d - 89 - l
         else if mn = 4 then d - 119 - l
         else if mn = 5 then d - 150 - l
         else if mn = 6 then d - 180 - l
         else if mn = 7 then d - 211 - l
         else if mn = 8 then d - 242 - l
         else if mn = 9 then d - 272 - l
         else if mn = 10 then d - 303 - l
         else d - 333 - l) = dt"
  using month_cases [OF assms(1,2)] assms(3)
  by (elim disjE) (simp_all add: daysBeforeMonth_def)

lemma civil_of_local_time:
  assumes mn: "0 \<le> mn" "mn \<le> 11"
    and dt: "1 \<le> dt" "dt \<le> daysInMonth mn (leapDays ym)"
    and w: "0 \<le> w" "w < msPerDay"
  defines "t \<equiv> (firstOfMonth ym mn + dt - 1) * msPerDay + w"
  shows "YearFromTime t = ym" and "MonthFromTime t = mn" and "DateFromTime t = dt"
    and "TimeWithinDay t = w"
proof -
  let ?l = "leapDays ym"
  let ?k = "daysBeforeMonth mn ?l + dt - 1"
  have day: "Day t = DayFromYear ym + ?k"
    unfolding t_def using Day_of_day_time(1) [OF w] by (simp add: firstOfMonth_def)
  have k: "0 \<le> ?k" "?k < DaysInYear ym"
    using dayWithinYear_range [OF mn dt leapDays_cases] by (simp_all add: DaysInYear_leapDays)
  show y: "YearFromTime t = ym"
    unfolding YearFromTime_def day using k by (rule YearFromDay_in_year)
  have dwy: "DayWithinYear t = ?k"
    by (simp add: DayWithinYear_def y day)
  have leap: "InLeapYear t = ?l"
    by (simp add: InLeapYear_def y)
  show m: "MonthFromTime t = mn"
    unfolding MonthFromTime_def dwy leap Let_def
    by (rule month_of_dayWithinYear [OF mn dt leapDays_cases refl])
  show "DateFromTime t = dt"
    unfolding DateFromTime_def dwy leap m Let_def
    by (rule date_of_dayWithinYear [OF mn refl])
  show "TimeWithinDay t = w"
    unfolding t_def using w by (rule Day_of_day_time(2))
qed

lemma DayWithinYear_range:
  "0 \<le> DayWithinYear t" "DayWithinYear t < 365 + InLeapYear t"
proof -
  have "DayFromYear (YearFromDay (Day t)) \<le> Day t"
    and "Day t < DayFromYear (YearFromDay (Day t) + 1)"
    using YearFromDay_spec [of "Day t"] by simp_all
  then show "0 \<le> DayWithinYear t" and "DayWithinYear t < 365 + InLeapYear t"
    by (simp_all add: DayWithinYear_def YearFromTime_def InLeapYear_def DayFromYear_step
        DaysInYear_leapDays)
qed

lemma MonthFromTime_range: "0 \<le> MonthFromTime t" "MonthFromTime t \<le> 11"
  by (simp_all add: MonthFromTime_def Let_def)

lemma InLeapYear_cases: "InLeapYear t = 0 \<or> InLeapYear t = 1"
  by (simp add: InLeapYear_def leapDays_cases)

lemma DateFromTime_range:
  "1 \<le> DateFromTime t" "DateFromTime t \<le> daysInMonth (MonthFromTime t) (InLeapYear t)"
proof -
  let ?d = "DayWithinYear t" and ?l = "InLeapYear t"
  note r1 = DayWithinYear_range(1) [of t] and r2 = DayWithinYear_range(2) [of t]
  note l = InLeapYear_cases [of t]
  have m: "MonthFromTime t =
      (if ?d < 31 then 0
       else if ?d < 59 + ?l then 1
       else if ?d < 90 + ?l then 2
       else if ?d < 120 + ?l then 3
       else if ?d < 151 + ?l then 4
       else if ?d < 181 + ?l then 5
       else if ?d < 212 + ?l then 6
       else if ?d < 243 + ?l then 7
       else if ?d < 273 + ?l then 8
       else if ?d < 304 + ?l then 9
       else if ?d < 334 + ?l then 10
       else 11)"
    by (simp add: MonthFromTime_def Let_def)
  note c = month_cases [OF MonthFromTime_range(1) MonthFromTime_range(2), of t]
  show "1 \<le> DateFromTime t"
    using c r1 l m
    by (elim disjE) (simp_all add: DateFromTime_def Let_def split: if_splits)
  show "DateFromTime t \<le> daysInMonth (MonthFromTime t) (InLeapYear t)"
    using c r2 l m
    by (elim disjE) (simp_all add: DateFromTime_def daysInMonth_def Let_def split: if_splits)
qed

lemma local_time_fields:
  "t = (firstOfMonth (YearFromTime t) (MonthFromTime t) + DateFromTime t - 1) * msPerDay
         + TimeWithinDay t"
proof -
  let ?d = "DayWithinYear t" and ?l = "InLeapYear t"
  note c = month_cases [OF MonthFromTime_range(1) MonthFromTime_range(2), of t]
  have "daysBeforeMonth (MonthFromTime t) ?l + DateFromTime t - 1 = ?d"
    using c by (elim disjE) (simp_all add: DateFromTime_def daysBeforeMonth_def Let_def)
  then have "firstOfMonth (YearFromTime t) (MonthFromTime t) + DateFromTime t - 1 = Day t"
    by (simp add: firstOfMonth_def InLeapYear_def DayWithinYear_def)
  then show ?thesis
    by (simp add: Day_def TimeWithinDay_def)
qed

lemma TimeWithinDay_range: "0 \<le> TimeWithinDay t" "TimeWithinDay t < msPerDay"
  by (simp_all add: TimeWithinDay_def msPerDay_def)

section \<open>The validators\<close>

lemma numberValidator_cases:
  "numberValidator h v = None \<or> numberValidator h v = Some (''invalidNumber'', msgInvalidNumber)"
  by (simp add: numberValidator_def)

lemma StringToNumber_empty: "StringToNumber [] = Num 0"
  by (simp add: StringToNumber_def trimString_def)

lemma roundNumber_small:
  assumes "\<bar>q\<bar> < 2 ^ 64" and "1 \<le> \<bar>q\<bar> \<or> q = 0"
  shows "roundNumber q = Num q"
proof -
  have "(2::rat) ^ 64 < 2 ^ 1024 - 2 ^ 970" by simp
  with assms(1) have big: "\<not> 2 ^ 1024 - 2 ^ 970 \<le> \<bar>q\<bar>" by linarith
  have "(1::rat) / 2 ^ 1075 < 1" by simp
  with assms(2) have small: "\<bar>q\<bar> \<le> 1 / 2 ^ 1075 \<longrightarrow> q = 0" by linarith
  show ?thesis unfolding roundNumber_def using big small by auto
qed

lemmas parse_defs = StringToNumber_def trimString_def isStrWhiteSpaceChar_def parseNonDecimal_def
  parseUnsignedDecimal_def isDecimalDigit_def digitValue_def parseExponentPart_def scale10_def
  nonDecimalRadix_def parseSignedInteger_def negateNumber_def

lemma StringToNumber_Infinity: "StringToNumber ''Infinity'' = PosInf"
  by (simp add: parse_defs)

lemma StringToNumber_7: "StringToNumber ''7'' = Num 7"
  by (simp add: parse_defs roundNumber_small)

lemma StringToNumber_12: "StringToNumber ''12'' = Num 12"
  by (simp add: parse_defs roundNumber_small)

lemma StringToNumber_abc: "StringToNumber ''abc'' = NaN"
  by (simp add: parse_defs)

text \<open>
  C10. The numeric validator passes the empty string: \<^verbatim>\<open>Number('')\<close> is 0, not NaN.
\<close>

theorem numberValidator_empty_string: "numberValidator h (JStr []) = None"
  by (simp add: numberValidator_def isNaN_def StringToNumber_empty)

text \<open>
  C3, as the specification states it, fails: the validator passes \<^verbatim>\<open>'Infinity'\<close>, which
  converts to a Number that is not finite.
\<close>

theorem numberValidator_Infinity_counterexample:
  "numberValidator [] (JStr ''Infinity'') = None
     \<and> \<not> isFiniteNumber (ToNumber [] (JStr ''Infinity''))"
  by (simp add: numberValidator_def isNaN_def isFiniteNumber_def StringToNumber_Infinity)

text \<open>
  C3, amended. For every string the numeric validator passes exactly when the string
  converts to a Number other than NaN, that is to a finite number or to an infinity; when
  it does not pass, its result is the failure \<^verbatim>\<open>invalidNumber\<close>.
\<close>

theorem numberValidator_passes_iff_not_NaN:
  "(numberValidator h (JStr s) = None) =
      (isFiniteNumber (StringToNumber s) \<or> StringToNumber s = PosInf \<or> StringToNumber s = NegInf)
   \<and> (numberValidator h (JStr s) = None
        \<or> numberValidator h (JStr s) = Some (''invalidNumber'', msgInvalidNumber))"
  by (cases "StringToNumber s") (simp_all add: numberValidator_def isNaN_def isFiniteNumber_def)

theorem numberValidator_passes_iff_not_NaN_witness:
  "numberValidator [] (JStr ''12'') = None \<and> isFiniteNumber (StringToNumber ''12'')
   \<and> numberValidator [] (JStr ''abc'') = Some (''invalidNumber'', msgInvalidNumber)
   \<and> \<not> isFiniteNumber (StringToNumber ''abc'')"
  using numberValidator_passes_iff_not_NaN [of "[]" "''12''"]
    numberValidator_passes_iff_not_NaN [of "[]" "''abc''"]
  by (auto simp: StringToNumber_12 StringToNumber_abc isFiniteNumber_def)

section \<open>Submission\<close>

lemma foldl_two_emits:
  "foldl (\<lambda>st v. emit b (emit a st)) s vs
     = s\<lparr>effects := effects s @ concat (replicate (length vs) [a, b])\<rparr>"
  by (induction vs arbitrary: s) (simp_all add: emit_def)

lemma subscribe_update:
  "subscribe ob (\<lambda>u. onUpdateSuccess) onUpdateError s
     = s\<lparr>effects := effects s
           @ concat (replicate (length (obsValues ob))
               [SnackBarOpen ''Produto atualizado com sucesso'' ''Fechar'' 2000, DialogCloseAll])
           @ failureEffects ''Erro ao atualizar o produto'' (obsEnding ob)\<rparr>"
proof (cases ob)
  case (Observable vs e)
  show ?thesis
    unfolding Observable subscribe_def onUpdateSuccess_def foldl_two_emits
    by (cases e) (simp_all add: onUpdateError_def failureEffects_def emit_def)
qed

lemma subscribe_add:
  "subscribe ob (\<lambda>u. onAddSuccess) onAddError s
     = s\<lparr>effects := effects s
           @ concat (replicate (length (obsValues ob))
               [SnackBarOpen ''Produto cadastrado com sucesso'' ''Fechar'' 2000, DialogCloseAll])
           @ failureEffects ''Erro ao cadastrar o produto'' (obsEnding ob)\<rparr>"
proof (cases ob)
  case (Observable vs e)
  show ?thesis
    unfolding Observable subscribe_def onAddSuccess_def foldl_two_emits
    by (cases e) (simp_all add: onAddError_def failureEffects_def emit_def)
qed

lemma serviceCalls_notifications:
  "serviceCalls (concat (replicate n [SnackBarOpen m a d, DialogCloseAll])) = []"
  by (induction n) (simp_all add: serviceCalls_def isServiceCall_def)

lemma serviceCalls_failureEffects: "serviceCalls (failureEffects m e) = []"
  by (cases e) (simp_all add: failureEffects_def serviceCalls_def isServiceCall_def)

lemma serviceCalls_append: "serviceCalls (xs @ ys) = serviceCalls xs @ serviceCalls ys"
  by (simp add: serviceCalls_def)

lemma onSubmit_editing:
  assumes "isEditing s"
  shows "onSubmit svc s =
     s\<lparr>produtoForm := (produtoForm s)
          \<lparr>formValue := obj_set (formValue (produtoForm s)) ''id'' (JNum (produtoId s))\<rparr>,
       effects := effects s
         @ [UpdateProduto (obj_set (formValue (produtoForm s)) ''id'' (JNum (produtoId s)))]
         @ concat (replicate
             (length (obsValues (updateProduto svc
                (obj_set (formValue (produtoForm s)) ''id'' (JNum (produtoId s))))))
             [SnackBarOpen ''Produto atualizado com sucesso'' ''Fechar'' 2000, DialogCloseAll])
         @ failureEffects ''Erro ao atualizar o produto''
             (obsEnding (updateProduto svc
                (obj_set (formValue (produtoForm s)) ''id'' (JNum (produtoId s)))))\<rparr>"
  by (simp add: onSubmit_def Let_def assms subscribe_update emit_def)

lemma onSubmit_creating:
  assumes "\<not> isEditing s"
  shows "onSubmit svc s =
     s\<lparr>effects := effects s
         @ [AddProduto (formValue (produtoForm s))]
         @ concat (replicate (length (obsValues (addProduto svc (formValue (produtoForm s)))))
             [SnackBarOpen ''Produto cadastrado com sucesso'' ''Fechar'' 2000, DialogCloseAll])
         @ failureEffects ''Erro ao cadastrar o produto''
             (obsEnding (addProduto svc (formValue (produtoForm s))))\<rparr>"
  by (simp add: onSubmit_def Let_def assms subscribe_add emit_def)

lemma obj_get_obj_set: "obj_get (obj_set ob k v) k = v"
  by (simp add: obj_get_def obj_set_def update_conv')


lemma newEffects_append: "effects s' = effects s @ es \<Longrightarrow> newEffects s s' = es"
  by (simp add: newEffects_def)

lemmas form_defs = group_def updateValueAndValidity_def allControlsDisabled_def reduceValue_def
  newControl_def patchValue_def patchControl_def initialForm_def createForm_def initialState_def

text \<open>
  C2. In edit mode with the stored identifier 7, submission calls the update operation,
  and no other operation of the service, with a product whose \<^verbatim>\<open>id\<close> is 7, whatever the
  form holds and whatever the service answers.
\<close>

theorem onSubmit_edit_sends_stored_id:
  assumes "isEditing s" and "produtoId s = Num 7"
  shows "serviceCalls (newEffects s (onSubmit svc s))
           = [UpdateProduto (obj_set (formValue (produtoForm s)) ''id'' (JNum (Num 7)))]
         \<and> obj_get (obj_set (formValue (produtoForm s)) ''id'' (JNum (Num 7))) ''id'' = JNum (Num 7)"
proof -
  have "effects (onSubmit svc s) = effects s
      @ ([UpdateProduto (obj_set (formValue (produtoForm s)) ''id'' (JNum (produtoId s)))]
      @ concat (replicate
             (length (obsValues (updateProduto svc
                (obj_set (formValue (produtoForm s)) ''id'' (JNum (produtoId s))))))
          [SnackBarOpen ''Produto atualizado com sucesso'' ''Fechar'' 2000, DialogCloseAll])
      @ failureEffects ''Erro ao atualizar o produto''
             (obsEnding (updateProduto svc
                (obj_set (formValue (produtoForm s)) ''id'' (JNum (produtoId s))))))"
    by (simp add: onSubmit_editing [OF assms(1)])
  then have "newEffects s (onSubmit svc s) =
      [UpdateProduto (obj_set (formValue (produtoForm s)) ''id'' (JNum (produtoId s)))]
      @ concat (replicate
             (length (obsValues (updateProduto svc
                (obj_set (formValue (produtoForm s)) ''id'' (JNum (produtoId s))))))
          [SnackBarOpen ''Produto atualizado com sucesso'' ''Fechar'' 2000, DialogCloseAll])
      @ failureEffects ''Erro ao atualizar o produto''
             (obsEnding (updateProduto svc
                (obj_set (formValue (produtoForm s)) ''id'' (JNum (produtoId s)))))"
    by (rule newEffects_append)
  then have "serviceCalls (newEffects s (onSubmit svc s))
      = serviceCalls [UpdateProduto (obj_set (formValue (produtoForm s)) ''id'' (JNum (produtoId s)))]"
    by (simp only: serviceCalls_append serviceCalls_notifications serviceCalls_failureEffects
        append_Nil2)
  then show ?thesis
    by (simp add: assms(2) obj_get_obj_set serviceCalls_def isServiceCall_def)
qed

text \<open>
  C5. In create mode submission calls the add operation, and no other operation of the
  service, with the form's value as it is: no id is assigned in it, and the form is as it
  was.
\<close>

theorem onSubmit_create_attaches_no_id:
  assumes "\<not> isEditing s"
  shows "serviceCalls (newEffects s (onSubmit svc s)) = [AddProduto (formValue (produtoForm s))]
         \<and> produtoForm (onSubmit svc s) = produtoForm s"
proof -
  note eq = onSubmit_creating [OF assms, of svc]
  have "effects (onSubmit svc s) = effects s
         @ ([AddProduto (formValue (produtoForm s))]
         @ concat (replicate (length (obsValues (addProduto svc (formValue (produtoForm s)))))
             [SnackBarOpen ''Produto cadastrado com sucesso'' ''Fechar'' 2000, DialogCloseAll])
         @ failureEffects ''Erro ao cadastrar o produto''
             (obsEnding (addProduto svc (formValue (produtoForm s)))))"
    by (simp add: eq)
  then have "newEffects s (onSubmit svc s) =
         [AddProduto (formValue (produtoForm s))]
         @ concat (replicate (length (obsValues (addProduto svc (formValue (produtoForm s)))))
             [SnackBarOpen ''Produto cadastrado com sucesso'' ''Fechar'' 2000, DialogCloseAll])
         @ failureEffects ''Erro ao cadastrar o produto''
             (obsEnding (addProduto svc (formValue (produtoForm s))))"
    by (rule newEffects_append)
  then have "serviceCalls (newEffects s (onSubmit svc s))
      = serviceCalls [AddProduto (formValue (produtoForm s))]"
    by (simp only: serviceCalls_append serviceCalls_notifications serviceCalls_failureEffects
        append_Nil2)
  then have "serviceCalls (newEffects s (onSubmit svc s)) = [AddProduto (formValue (produtoForm s))]"
    by (simp add: serviceCalls_def isServiceCall_def)
  moreover have "produtoForm (onSubmit svc s) = produtoForm s"
    by (simp add: eq)
  ultimately show ?thesis by simp
qed

lemmas example_defs = filledForm_def editingState_def creatingState_def warrantyState_def
  failingService_def workingService_def

theorem onSubmit_edit_sends_stored_id_witness:
  "isEditing editingState \<and> produtoId editingState = Num 7
   \<and> obj_get (formValue (produtoForm editingState)) ''id'' = JStr ''3''
   \<and> serviceCalls (newEffects editingState (onSubmit failingService editingState))
       = [UpdateProduto [(''id'', JNum (Num 7)), (''nome'', JStr ''TV''),
            (''dataCompra'', JStr ''2024-01-15''), (''duracaoGarantiaMeses'', JNum (Num 12))]]"
proof -
  have a: "isEditing editingState" and b: "produtoId editingState = Num 7"
    by (simp_all add: editingState_def)
  have v: "formValue (produtoForm editingState) = [(''id'', JStr ''3''), (''nome'', JStr ''TV''),
            (''dataCompra'', JStr ''2024-01-15''), (''duracaoGarantiaMeses'', JNum (Num 12))]"
    by (simp add: example_defs form_defs)
  show ?thesis
    using onSubmit_edit_sends_stored_id [OF a b, of failingService]
    by (simp add: a b v obj_set_def obj_get_def)
qed

theorem onSubmit_create_attaches_no_id_witness:
  "\<not> isEditing creatingState
   \<and> serviceCalls (newEffects creatingState (onSubmit workingService creatingState))
       = [AddProduto [(''id'', JStr ''3''), (''nome'', JStr ''TV''),
            (''dataCompra'', JStr ''2024-01-15''), (''duracaoGarantiaMeses'', JNum (Num 12))]]
   \<and> produtoForm (onSubmit workingService creatingState) = produtoForm creatingState"
proof -
  have a: "\<not> isEditing creatingState"
    by (simp add: creatingState_def)
  have v: "formValue (produtoForm creatingState) = [(''id'', JStr ''3''), (''nome'', JStr ''TV''),
            (''dataCompra'', JStr ''2024-01-15''), (''duracaoGarantiaMeses'', JNum (Num 12))]"
    by (simp add: example_defs form_defs)
  show ?thesis
    using onSubmit_create_attaches_no_id [OF a, of workingService]
    by (simp add: a v)
qed

lemma serviceCalls_submission:
  assumes "isServiceCall call"
  shows "serviceCalls (call # concat (replicate n [SnackBarOpen m a d, DialogCloseAll])
           @ [ConsoleError err, SnackBarOpen m' a' d']) = [call]"
proof -
  have "serviceCalls ([call] @ concat (replicate n [SnackBarOpen m a d, DialogCloseAll])
           @ [ConsoleError err, SnackBarOpen m' a' d'])
        = serviceCalls [call] @ [] @ serviceCalls [ConsoleError err, SnackBarOpen m' a' d']"
    by (simp only: serviceCalls_append serviceCalls_notifications)
  also have "\<dots> = [call]"
    using assms by (simp add: serviceCalls_def isServiceCall_def)
  finally show ?thesis by simp
qed

lemma obj_get_obj_set_other: "k \<noteq> k' \<Longrightarrow> obj_get (obj_set ob k' v) k = obj_get ob k"
  by (simp add: obj_get_def obj_set_def update_conv')

lemma editingState_value:
  "formValue (produtoForm editingState) = [(''id'', JStr ''3''), (''nome'', JStr ''TV''),
     (''dataCompra'', JStr ''2024-01-15''), (''duracaoGarantiaMeses'', JNum (Num 12))]"
  by (simp add: example_defs form_defs)

text \<open>
  C6, as the specification states it, fails. In edit mode the form's value object, from
  which the component reads its field values, holds the id \<^verbatim>\<open>'3'\<close>; the update fails; after
  the submission that object holds the id 7, the stored identifier.
\<close>

theorem onSubmit_failure_counterexample:
  "isEditing editingState
   \<and> obsEnding (submittedOperation failingService editingState) = Failure (JStr ''update failed'')
   \<and> obj_get (formValue (produtoForm editingState)) ''id'' = JStr ''3''
   \<and> obj_get (formValue (produtoForm (onSubmit failingService editingState))) ''id''
       = JNum (Num 7)
   \<and> formValue (produtoForm (onSubmit failingService editingState))
       \<noteq> formValue (produtoForm editingState)"
proof -
  have e: "isEditing editingState" "produtoId editingState = Num 7"
    by (simp_all add: editingState_def)
  have a: "obsEnding (submittedOperation failingService editingState)
             = Failure (JStr ''update failed'')"
    by (simp add: submittedOperation_def failingService_def editingState_def)
  have b: "obj_get (formValue (produtoForm editingState)) ''id'' = JStr ''3''"
    by (simp add: editingState_value obj_get_def)
  have v: "formValue (produtoForm (onSubmit failingService editingState))
      = [(''id'', JNum (Num 7)), (''nome'', JStr ''TV''),
         (''dataCompra'', JStr ''2024-01-15''), (''duracaoGarantiaMeses'', JNum (Num 12))]"
    by (simp add: onSubmit_editing [OF e(1)] e(2) editingState_value obj_set_def)
  have c: "obj_get (formValue (produtoForm (onSubmit failingService editingState))) ''id''
       = JNum (Num 7)"
    by (simp add: v obj_get_def)
  have d: "formValue (produtoForm (onSubmit failingService editingState))
       \<noteq> formValue (produtoForm editingState)"
    by (simp add: v editingState_value)
  from e(1) a b c d show ?thesis by (intro conjI)
qed

text \<open>
  C6, amended. When the operation of a submission fails, in edit mode or in create mode,
  the component logs the error and then opens the failure notification, whose message no
  success callback uses; the operation is called once and not again; the controls of the
  form, the stored identifier, the mode and the Date objects are as before the submission.
  The form's value object is as before in create mode; in edit mode its \<^verbatim>\<open>id\<close> is the
  stored identifier, assigned when the update was sent, and every other entry of it is as
  before.
\<close>

theorem onSubmit_failure:
  assumes "obsEnding (submittedOperation svc s) = Failure err"
  shows "(\<exists>call before. newEffects s (onSubmit svc s)
              = call # before @ [ConsoleError err, failureNotification s]
            \<and> isServiceCall call
            \<and> serviceCalls (newEffects s (onSubmit svc s)) = [call])
         \<and> failureNotification s \<notin> set (newEffects s (onUpdateSuccess s))
         \<and> failureNotification s \<notin> set (newEffects s (onAddSuccess s))
         \<and> controls (produtoForm (onSubmit svc s)) = controls (produtoForm s)
         \<and> produtoId (onSubmit svc s) = produtoId s
         \<and> isEditing (onSubmit svc s) = isEditing s
         \<and> jsHeap (onSubmit svc s) = jsHeap s
         \<and> produtoForm (onSubmit svc s)
             = (if isEditing s
                then (produtoForm s)\<lparr>formValue :=
                       obj_set (formValue (produtoForm s)) ''id'' (JNum (produtoId s))\<rparr>
                else produtoForm s)
         \<and> (k \<noteq> ''id'' \<longrightarrow>
               obj_get (formValue (produtoForm (onSubmit svc s))) k
                 = obj_get (formValue (produtoForm s)) k)"
proof (cases "isEditing s")
  case True
  let ?p = "obj_set (formValue (produtoForm s)) ''id'' (JNum (produtoId s))"
  let ?oks = "concat (replicate (length (obsValues (updateProduto svc ?p)))
          [SnackBarOpen ''Produto atualizado com sucesso'' ''Fechar'' 2000, DialogCloseAll])"
  note eq = onSubmit_editing [OF True, of svc]
  have e: "obsEnding (updateProduto svc ?p) = Failure err"
    using assms True by (simp add: submittedOperation_def)
  have "effects (onSubmit svc s) = effects s
      @ (UpdateProduto ?p # ?oks @ [ConsoleError err, failureNotification s])"
    by (simp add: eq e failureEffects_def failureNotification_def True)
  then have n: "newEffects s (onSubmit svc s)
      = UpdateProduto ?p # ?oks @ [ConsoleError err, failureNotification s]"
    by (rule newEffects_append)
  have c: "serviceCalls (newEffects s (onSubmit svc s)) = [UpdateProduto ?p]"
    unfolding n failureNotification_def
    by (rule serviceCalls_submission) (simp add: isServiceCall_def)
  have first: "\<exists>call before. newEffects s (onSubmit svc s)
              = call # before @ [ConsoleError err, failureNotification s]
            \<and> isServiceCall call
            \<and> serviceCalls (newEffects s (onSubmit svc s)) = [call]"
    using n c by (intro exI [of _ "UpdateProduto ?p"] exI [of _ ?oks]) (simp add: isServiceCall_def)
  have rest: "controls (produtoForm (onSubmit svc s)) = controls (produtoForm s)
         \<and> produtoId (onSubmit svc s) = produtoId s
         \<and> isEditing (onSubmit svc s) = isEditing s
         \<and> jsHeap (onSubmit svc s) = jsHeap s"
    by (simp add: eq)
  have form: "produtoForm (onSubmit svc s)
             = (if isEditing s
                then (produtoForm s)\<lparr>formValue :=
                       obj_set (formValue (produtoForm s)) ''id'' (JNum (produtoId s))\<rparr>
                else produtoForm s)"
    by (simp add: eq True)
  have others: "k \<noteq> ''id'' \<longrightarrow>
               obj_get (formValue (produtoForm (onSubmit svc s))) k
                 = obj_get (formValue (produtoForm s)) k"
    by (simp add: form True obj_get_obj_set_other)
  have distinct: "failureNotification s \<notin> set (newEffects s (onUpdateSuccess s))
         \<and> failureNotification s \<notin> set (newEffects s (onAddSuccess s))"
    by (simp add: failureNotification_def newEffects_def onUpdateSuccess_def onAddSuccess_def
        emit_def)
  from first rest distinct form others show ?thesis by (intro conjI) blast+
next
  case False
  let ?p = "formValue (produtoForm s)"
  let ?oks = "concat (replicate (length (obsValues (addProduto svc ?p)))
          [SnackBarOpen ''Produto cadastrado com sucesso'' ''Fechar'' 2000, DialogCloseAll])"
  note eq = onSubmit_creating [OF False, of svc]
  have e: "obsEnding (addProduto svc ?p) = Failure err"
    using assms False by (simp add: submittedOperation_def)
  have "effects (onSubmit svc s) = effects s
      @ (AddProduto ?p # ?oks @ [ConsoleError err, failureNotification s])"
    by (simp add: eq e failureEffects_def failureNotification_def False)
  then have n: "newEffects s (onSubmit svc s)
      = AddProduto ?p # ?oks @ [ConsoleError err, failureNotification s]"
    by (rule newEffects_append)
  have c: "serviceCalls (newEffects s (onSubmit svc s)) = [AddProduto ?p]"
    unfolding n failureNotification_def
    by (rule serviceCalls_submission) (simp add: isServiceCall_def)
  have first: "\<exists>call before. newEffects s (onSubmit svc s)
              = call # before @ [ConsoleError err, failureNotification s]
            \<and> isServiceCall call
            \<and> serviceCalls (newEffects s (onSubmit svc s)) = [call]"
    using n c by (intro exI [of _ "AddProduto ?p"] exI [of _ ?oks]) (simp add: isServiceCall_def)
  have rest: "controls (produtoForm (onSubmit svc s)) = controls (produtoForm s)
         \<and> produtoId (onSubmit svc s) = produtoId s
         \<and> isEditing (onSubmit svc s) = isEditing s
         \<and> jsHeap (onSubmit svc s) = jsHeap s"
    by (simp add: eq)
  have form: "produtoForm (onSubmit svc s)
             = (if isEditing s
                then (produtoForm s)\<lparr>formValue :=
                       obj_set (formValue (produtoForm s)) ''id'' (JNum (produtoId s))\<rparr>
                else produtoForm s)"
    by (simp add: eq False)
  have others: "k \<noteq> ''id'' \<longrightarrow>
               obj_get (formValue (produtoForm (onSubmit svc s))) k
                 = obj_get (formValue (produtoForm s)) k"
    by (simp add: form False)
  have distinct: "failureNotification s \<notin> set (newEffects s (onUpdateSuccess s))
         \<and> failureNotification s \<notin> set (newEffects s (onAddSuccess s))"
    by (simp add: failureNotification_def newEffects_def onUpdateSuccess_def onAddSuccess_def
        emit_def)
  from first rest distinct form others show ?thesis by (intro conjI) blast+
qed

theorem onSubmit_failure_witness:
  "obsEnding (submittedOperation failingService editingState) = Failure (JStr ''update failed'')
   \<and> newEffects editingState (onSubmit failingService editingState)
       = [UpdateProduto [(''id'', JNum (Num 7)), (''nome'', JStr ''TV''),
            (''dataCompra'', JStr ''2024-01-15''), (''duracaoGarantiaMeses'', JNum (Num 12))],
          ConsoleError (JStr ''update failed''),
          SnackBarOpen ''Erro ao atualizar o produto'' ''Fechar'' 2000]
   \<and> serviceCalls (newEffects editingState (onSubmit failingService editingState))
       = [UpdateProduto [(''id'', JNum (Num 7)), (''nome'', JStr ''TV''),
            (''dataCompra'', JStr ''2024-01-15''), (''duracaoGarantiaMeses'', JNum (Num 12))]]
   \<and> controls (produtoForm (onSubmit failingService editingState))
       = controls (produtoForm editingState)
   \<and> ''nome'' \<noteq> ''id''
   \<and> obj_get (formValue (produtoForm (onSubmit failingService editingState))) ''nome''
       = JStr ''TV''"
proof -
  have a: "obsEnding (submittedOperation failingService editingState)
             = Failure (JStr ''update failed'')"
    by (simp add: submittedOperation_def failingService_def editingState_def)
  note v = editingState_value
  have e: "isEditing editingState" "produtoId editingState = Num 7" "effects editingState = []"
    by (simp_all add: editingState_def)
  have n: "newEffects editingState (onSubmit failingService editingState)
       = [UpdateProduto [(''id'', JNum (Num 7)), (''nome'', JStr ''TV''),
            (''dataCompra'', JStr ''2024-01-15''), (''duracaoGarantiaMeses'', JNum (Num 12))],
          ConsoleError (JStr ''update failed''),
          SnackBarOpen ''Erro ao atualizar o produto'' ''Fechar'' 2000]"
    by (simp add: onSubmit_editing e v newEffects_def obj_set_def failingService_def
        failureEffects_def)
  have c: "controls (produtoForm (onSubmit failingService editingState))
       = controls (produtoForm editingState)"
    using onSubmit_failure [OF a] by blast
  have sc: "serviceCalls (newEffects editingState (onSubmit failingService editingState))
       = [UpdateProduto [(''id'', JNum (Num 7)), (''nome'', JStr ''TV''),
            (''dataCompra'', JStr ''2024-01-15''), (''duracaoGarantiaMeses'', JNum (Num 12))]]"
    unfolding n by (simp add: serviceCalls_def isServiceCall_def)
  have ne: "''nome'' \<noteq> ''id''"
    by simp
  have "''nome'' \<noteq> ''id'' \<longrightarrow>
      obj_get (formValue (produtoForm (onSubmit failingService editingState))) ''nome''
        = obj_get (formValue (produtoForm editingState)) ''nome''"
    using onSubmit_failure [OF a, of "''nome''"] by blast
  with ne have "obj_get (formValue (produtoForm (onSubmit failingService editingState))) ''nome''
        = obj_get (formValue (produtoForm editingState)) ''nome''"
    by blast
  also have "\<dots> = JStr ''TV''"
    by (simp add: v obj_get_def)
  finally have o: "obj_get (formValue (produtoForm (onSubmit failingService editingState)))
      ''nome'' = JStr ''TV''" .
  from a n sc c ne o show ?thesis by (intro conjI)
qed

section \<open>The warranty end date\<close>

text \<open>
  C9. When the duration held by the form is the number 0, the calculation changes
  nothing: not the form, not the Date objects, nothing else in the component. This holds
  whatever the purchase date is, so also when it is present and valid.
\<close>

theorem calcular_zero_duration_no_update:
  assumes "obj_get (formValue (produtoForm s)) ''duracaoGarantiaMeses'' = JNum (Num 0)"
  shows "calcularDataFimGarantia P s = s"
  by (simp add: calcularDataFimGarantia_def Let_def assms)

lemma warrantyState_value:
  "formValue (produtoForm (warrantyState d))
     = [(''nome'', JStr ''TV''), (''dataCompra'', JDate 0), (''duracaoGarantiaMeses'', d)]"
  by (simp add: warrantyState_def form_defs)

lemma warrantyState_controls:
  "controls (produtoForm (warrantyState d))
     = [(''nome'', newControl (JStr ''TV'') False [Required]),
        (''dataCompra'', newControl (JDate 0) False [Required]),
        (''duracaoGarantiaMeses'', newControl d False [Required]),
        (''dataFimGarantia'', newControl (JStr []) True [])]"
  by (simp add: warrantyState_def form_defs)

lemma warrantyState_date_valid:
  "dateValidator P (jsHeap (warrantyState d)) (JDate 0) = None"
  by (simp add: warrantyState_def dateValidator_def newDate_def dateValueOf_def deref_def
      isNaN_def timevalNumber_def nth_append)

theorem calcular_zero_duration_no_update_witness:
  "obj_get (formValue (produtoForm (warrantyState (JNum (Num 0))))) ''duracaoGarantiaMeses''
     = JNum (Num 0)
   \<and> dateValidator examplePlatform (jsHeap (warrantyState (JNum (Num 0))))
        (obj_get (formValue (produtoForm (warrantyState (JNum (Num 0))))) ''dataCompra'') = None
   \<and> calcularDataFimGarantia examplePlatform (warrantyState (JNum (Num 0)))
        = warrantyState (JNum (Num 0))"
proof -
  have a: "obj_get (formValue (produtoForm (warrantyState (JNum (Num 0)))))
             ''duracaoGarantiaMeses'' = JNum (Num 0)"
    by (simp add: warrantyState_value obj_get_def)
  show ?thesis
    using calcular_zero_duration_no_update [OF a, of examplePlatform] a
    by (simp add: warrantyState_value obj_get_def warrantyState_date_valid)
qed

section \<open>Initialisation\<close>

lemma foldl_fetched_frame:
  "effects (foldl (\<lambda>st v. case v of
        Some ob \<Rightarrow> if isEditing st then st\<lparr>produtoForm := patchValue (produtoForm st) ob\<rparr> else st
      | None \<Rightarrow> st) s vs) = effects s
   \<and> isEditing (foldl (\<lambda>st v. case v of
        Some ob \<Rightarrow> if isEditing st then st\<lparr>produtoForm := patchValue (produtoForm st) ob\<rparr> else st
      | None \<Rightarrow> st) s vs) = isEditing s
   \<and> produtoId (foldl (\<lambda>st v. case v of
        Some ob \<Rightarrow> if isEditing st then st\<lparr>produtoForm := patchValue (produtoForm st) ob\<rparr> else st
      | None \<Rightarrow> st) s vs) = produtoId s"
  by (induction vs arbitrary: s) (simp_all split: option.splits)

lemma checkEditMode_absent:
  "map_of params ''id'' = None \<Longrightarrow> checkEditMode svc params s = s"
  by (simp add: checkEditMode_def obj_get_def)

lemma checkEditMode_present:
  assumes "map_of params ''id'' = Some (JStr i)" and "i \<noteq> []"
  shows "effects (checkEditMode svc params s) = effects s @ [GetProdutoById (StringToNumber i)]"
    and "isEditing (checkEditMode svc params s)"
    and "produtoId (checkEditMode svc params s) = StringToNumber i"
proof -
  have g: "obj_get params ''id'' = JStr i"
    using assms(1) by (simp add: obj_get_def)
  obtain vs e where ob: "getProdutoById svc (StringToNumber i) = Observable vs e"
    by (cases "getProdutoById svc (StringToNumber i)")
  have eq: "checkEditMode svc params s =
      (let s' = foldl (\<lambda>st v. case v of
            Some ob \<Rightarrow> if isEditing st then st\<lparr>produtoForm := patchValue (produtoForm st) ob\<rparr> else st
          | None \<Rightarrow> st)
          (s\<lparr>isEditing := True, produtoId := StringToNumber i,
             effects := effects s @ [GetProdutoById (StringToNumber i)]\<rparr>) vs
       in s')"
    by (cases e) (simp_all add: checkEditMode_def g assms(2) Let_def ob subscribe_def emit_def)
  show "effects (checkEditMode svc params s) = effects s @ [GetProdutoById (StringToNumber i)]"
    and "isEditing (checkEditMode svc params s)"
    and "produtoId (checkEditMode svc params s) = StringToNumber i"
    unfolding eq Let_def by (simp_all add: foldl_fetched_frame)
qed

lemma createForm_frame:
  "effects (createForm s) = effects s" "isEditing (createForm s) = isEditing s"
  by (simp_all add: createForm_def)

text \<open>
  C8. On initialisation, with no \<^verbatim>\<open>id\<close> among the route parameters the component only
  builds its form: it calls no operation of the service and its mode is as it was (create,
  for a new component). With an \<^verbatim>\<open>id\<close>, a non-empty string as the router supplies it, the
  component is in edit mode, has stored the id as a Number, and what it has done is
  exactly one call of the fetch, for that id.
\<close>

theorem ngOnInit_fetches_once_if_id:
  "(map_of params ''id'' = None \<longrightarrow>
      ngOnInit svc params s = createForm s
      \<and> serviceCalls (newEffects s (ngOnInit svc params s)) = []
      \<and> isEditing (ngOnInit svc params s) = isEditing s)
   \<and> (map_of params ''id'' = Some (JStr i) \<and> i \<noteq> [] \<longrightarrow>
      isEditing (ngOnInit svc params s)
      \<and> produtoId (ngOnInit svc params s) = StringToNumber i
      \<and> newEffects s (ngOnInit svc params s) = [GetProdutoById (StringToNumber i)])"
proof (intro conjI impI)
  assume a: "map_of params ''id'' = None"
  show eq: "ngOnInit svc params s = createForm s"
    by (simp add: ngOnInit_def checkEditMode_absent [OF a])
  show "serviceCalls (newEffects s (ngOnInit svc params s)) = []"
    by (simp add: eq newEffects_def createForm_frame serviceCalls_def)
  show "isEditing (ngOnInit svc params s) = isEditing s"
    by (simp add: eq createForm_frame)
next
  assume "map_of params ''id'' = Some (JStr i) \<and> i \<noteq> []"
  then have a: "map_of params ''id'' = Some (JStr i)" and b: "i \<noteq> []"
    by simp_all
  show "isEditing (ngOnInit svc params s)"
    unfolding ngOnInit_def by (rule checkEditMode_present(2) [OF a b])
  show "produtoId (ngOnInit svc params s) = StringToNumber i"
    unfolding ngOnInit_def by (rule checkEditMode_present(3) [OF a b])
  have "effects (ngOnInit svc params s) = effects s @ [GetProdutoById (StringToNumber i)]"
    unfolding ngOnInit_def by (simp add: checkEditMode_present(1) [OF a b] createForm_frame)
  then show "newEffects s (ngOnInit svc params s) = [GetProdutoById (StringToNumber i)]"
    by (rule newEffects_append)
qed

theorem ngOnInit_fetches_once_if_id_witness:
  "map_of ([] :: jsobj) ''id'' = None
   \<and> ngOnInit workingService [] initialState = createForm initialState
   \<and> serviceCalls (newEffects initialState (ngOnInit workingService [] initialState)) = []
   \<and> \<not> isEditing (ngOnInit workingService [] initialState)
   \<and> map_of [(''id'', JStr ''7'')] ''id'' = Some (JStr ''7'') \<and> ''7'' \<noteq> []
   \<and> isEditing (ngOnInit workingService [(''id'', JStr ''7'')] initialState)
   \<and> produtoId (ngOnInit workingService [(''id'', JStr ''7'')] initialState) = Num 7
   \<and> newEffects initialState (ngOnInit workingService [(''id'', JStr ''7'')] initialState)
       = [GetProdutoById (Num 7)]"
proof -
  have ne: "\<not> isEditing initialState"
    by (simp add: initialState_def)
  have a: "ngOnInit workingService [] initialState = createForm initialState
      \<and> serviceCalls (newEffects initialState (ngOnInit workingService [] initialState)) = []
      \<and> isEditing (ngOnInit workingService [] initialState) = isEditing initialState"
  proof -
    have "map_of ([] :: jsobj) ''id'' = None" by simp
    with ngOnInit_fetches_once_if_id [of "[]" workingService initialState "''7''"]
    show ?thesis by blast
  qed
  have b: "isEditing (ngOnInit workingService [(''id'', JStr ''7'')] initialState)
      \<and> produtoId (ngOnInit workingService [(''id'', JStr ''7'')] initialState)
          = StringToNumber ''7''
      \<and> newEffects initialState (ngOnInit workingService [(''id'', JStr ''7'')] initialState)
          = [GetProdutoById (StringToNumber ''7'')]"
  proof -
    have "map_of [(''id'', JStr ''7'')] ''id'' = Some (JStr ''7'') \<and> ''7'' \<noteq> []" by simp
    with ngOnInit_fetches_once_if_id [of "[(''id'', JStr ''7'')]" workingService initialState "''7''"]
    show ?thesis by blast
  qed
  from a ne have c: "\<not> isEditing (ngOnInit workingService [] initialState)"
    by blast
  from b have d: "produtoId (ngOnInit workingService [(''id'', JStr ''7'')] initialState) = Num 7"
    and e: "newEffects initialState (ngOnInit workingService [(''id'', JStr ''7'')] initialState)
          = [GetProdutoById (Num 7)]"
    by (simp_all only: StringToNumber_7)
  have f: "map_of ([] :: jsobj) ''id'' = None"
    and g: "map_of [(''id'', JStr ''7'')] ''id'' = Some (JStr ''7'')" and h: "''7'' \<noteq> []"
    by simp_all
  from a have a1: "ngOnInit workingService [] initialState = createForm initialState"
    and a2: "serviceCalls (newEffects initialState (ngOnInit workingService [] initialState)) = []"
    by blast+
  from b have b1: "isEditing (ngOnInit workingService [(''id'', JStr ''7'')] initialState)"
    by blast
  from f a1 a2 c g h b1 d e show ?thesis
    by (intro conjI)
qed

section \<open>The purchase date is not touched\<close>

lemma controls_updateValueAndValidity: "controls (updateValueAndValidity f) = controls f"
  by (simp add: updateValueAndValidity_def Let_def)

lemma controls_patchValue_one:
  "controls (patchValue f [(k, v)]) = patchControl (controls f) (k, v)"
  by (simp add: patchValue_def controls_updateValueAndValidity)

lemma map_of_patchControl_other:
  "k' \<noteq> k \<Longrightarrow> map_of (patchControl cs (k, v)) k' = map_of cs k'"
  by (simp add: patchControl_def update_conv' split: option.splits)

lemma map_of_patchControl_same:
  "map_of cs k = Some c \<Longrightarrow> map_of (patchControl cs (k, v)) k = Some (c\<lparr>ctlValue := v\<rparr>)"
  by (simp add: patchControl_def update_conv')

lemma patchControl_absent: "map_of cs k = None \<Longrightarrow> patchControl cs (k, v) = cs"
  by (simp add: patchControl_def)

lemma length_setMonth: "length (setMonth P h a m) = length h"
  by (simp add: setMonth_def Let_def split: option.splits)

lemma take_setMonth:
  "n \<le> a \<Longrightarrow> take n (setMonth P h a m) = take n h"
  by (simp add: setMonth_def Let_def split: option.splits)

lemma calcular_unfold:
  assumes "truthy (obj_get (formValue (produtoForm s)) ''dataCompra'')"
    and "truthy (obj_get (formValue (produtoForm s)) ''duracaoGarantiaMeses'')"
  shows "calcularDataFimGarantia P s =
     s\<lparr>jsHeap := setMonth P
          (jsHeap s @ [dateValueOf P (jsHeap s) (obj_get (formValue (produtoForm s)) ''dataCompra'')])
          (length (jsHeap s))
          (addToIntegral P
             (jsHeap s @ [dateValueOf P (jsHeap s) (obj_get (formValue (produtoForm s)) ''dataCompra'')])
             (getMonth P
                (jsHeap s @ [dateValueOf P (jsHeap s) (obj_get (formValue (produtoForm s)) ''dataCompra'')])
                (length (jsHeap s)))
             (obj_get (formValue (produtoForm s)) ''duracaoGarantiaMeses'')),
       produtoForm := patchValue (produtoForm s) [(''dataFimGarantia'', JDate (length (jsHeap s)))]\<rparr>"
  by (simp add: calcularDataFimGarantia_def Let_def assms newDate_def)

lemma calcular_falsy:
  assumes "\<not> truthy (obj_get (formValue (produtoForm s)) ''dataCompra'')
           \<or> \<not> truthy (obj_get (formValue (produtoForm s)) ''duracaoGarantiaMeses'')"
  shows "calcularDataFimGarantia P s = s"
  using assms by (auto simp: calcularDataFimGarantia_def Let_def)

text \<open>
  C7. The calculation leaves the \<^verbatim>\<open>dataCompra\<close> control as it is, and every Date object
  that existed before it keeps its time value: \<^verbatim>\<open>setMonth\<close> works on the copy made by
  \<^verbatim>\<open>new Date\<close>, which is allocated after all of them.
\<close>

theorem calcular_keeps_dataCompra:
  "map_of (controls (produtoForm (calcularDataFimGarantia P s))) ''dataCompra''
     = map_of (controls (produtoForm s)) ''dataCompra''
   \<and> take (length (jsHeap s)) (jsHeap (calcularDataFimGarantia P s)) = jsHeap s
   \<and> (\<forall>a. a < length (jsHeap s) \<longrightarrow>
        deref (jsHeap (calcularDataFimGarantia P s)) a = deref (jsHeap s) a)"
proof (cases "truthy (obj_get (formValue (produtoForm s)) ''dataCompra'')
              \<and> truthy (obj_get (formValue (produtoForm s)) ''duracaoGarantiaMeses'')")
  case False
  then have "calcularDataFimGarantia P s = s"
    by (intro calcular_falsy) simp
  then show ?thesis by simp
next
  case True
  then have eq: "calcularDataFimGarantia P s =
     s\<lparr>jsHeap := setMonth P
          (jsHeap s @ [dateValueOf P (jsHeap s) (obj_get (formValue (produtoForm s)) ''dataCompra'')])
          (length (jsHeap s))
          (addToIntegral P
             (jsHeap s @ [dateValueOf P (jsHeap s) (obj_get (formValue (produtoForm s)) ''dataCompra'')])
             (getMonth P
                (jsHeap s @ [dateValueOf P (jsHeap s) (obj_get (formValue (produtoForm s)) ''dataCompra'')])
                (length (jsHeap s)))
             (obj_get (formValue (produtoForm s)) ''duracaoGarantiaMeses'')),
       produtoForm := patchValue (produtoForm s) [(''dataFimGarantia'', JDate (length (jsHeap s)))]\<rparr>"
    by (intro calcular_unfold) simp_all
  have c: "map_of (controls (produtoForm (calcularDataFimGarantia P s))) ''dataCompra''
     = map_of (controls (produtoForm s)) ''dataCompra''"
    by (simp add: eq controls_patchValue_one map_of_patchControl_other)
  have t: "take (length (jsHeap s)) (jsHeap (calcularDataFimGarantia P s)) = jsHeap s"
    by (simp add: eq take_setMonth)
  have d: "\<forall>a. a < length (jsHeap s) \<longrightarrow>
        deref (jsHeap (calcularDataFimGarantia P s)) a = deref (jsHeap s) a"
  proof (intro allI impI)
    fix a assume a: "a < length (jsHeap s)"
    have l: "length (jsHeap (calcularDataFimGarantia P s)) = Suc (length (jsHeap s))"
      by (simp add: eq length_setMonth)
    have "jsHeap (calcularDataFimGarantia P s) ! a
        = take (length (jsHeap s)) (jsHeap (calcularDataFimGarantia P s)) ! a"
      using a by simp
    also have "\<dots> = jsHeap s ! a"
      by (simp only: t)
    finally show "deref (jsHeap (calcularDataFimGarantia P s)) a = deref (jsHeap s) a"
      using a l by (simp add: deref_def)
  qed
  from c t d show ?thesis by simp
qed

section \<open>The date validator\<close>

lemma dateValidator_eq:
  "dateValidator P h v =
     (case dateValueOf P h v of None \<Rightarrow> Some (''invalidDate'', msgInvalidDate) | Some t \<Rightarrow> None)"
  by (simp add: dateValidator_def newDate_def deref_def isNaN_def timevalNumber_def
      split: option.splits)

text \<open>
  C4, amended. The date validator returns no error exactly when \<^verbatim>\<open>new Date\<close> makes a
  valid Date of the value, and for a string that is exactly when the platform's date parser
  recognises it; otherwise it returns the failure \<^verbatim>\<open>invalidDate\<close>, and nothing else. Which
  strings the parser recognises is the platform's matter, and a recognised string need not
  name a valid calendar date.
\<close>

theorem dateValidator_passes_iff_Date_valid:
  "(dateValidator P h (JStr str) = None) = (\<exists>t. dateParse P str = Some t)
   \<and> (dateValidator P h v = None) = (\<exists>t. dateValueOf P h v = Some t)
   \<and> (dateValidator P h v = None
        \<or> dateValidator P h v = Some (''invalidDate'', msgInvalidDate))"
  by (simp add: dateValidator_eq dateValueOf_def split: option.splits)

lemma firstOfMonth_2024_0: "firstOfMonth 2024 0 = 19723"
  by (simp add: firstOfMonth_def DayFromYear_def daysBeforeMonth_def)

lemma firstOfMonth_2025_0: "firstOfMonth 2025 0 = 20089"
  by (simp add: firstOfMonth_def DayFromYear_def daysBeforeMonth_def)

lemma leapDays_2024: "leapDays 2024 = 1"
  by (simp add: leapDays_def DaysInYear_def)

lemma leapDays_2025: "leapDays 2025 = 0"
  by (simp add: leapDays_def DaysInYear_def)

lemma parseIsoDate_2024_01_15: "parseIsoDate ''2024-01-15'' = Some 1705276800000"
  by (simp add: parseIsoDate_def digitValue_def daysInMonth_def leapDays_2024
      firstOfMonth_2024_0 msPerDay_def)

lemma parseIsoDate_abc: "parseIsoDate ''abc'' = None"
  by (simp add: parseIsoDate_def)

lemma fields_2024_01_15:
  "YearFromTime 1705276800000 = 2024" "MonthFromTime 1705276800000 = 0"
  "DateFromTime 1705276800000 = 15" "TimeWithinDay 1705276800000 = 0"
proof -
  have t: "(firstOfMonth 2024 0 + 15 - 1) * msPerDay + 0 = 1705276800000"
    by (simp add: firstOfMonth_2024_0 msPerDay_def)
  have d: "(15::int) \<le> daysInMonth 0 (leapDays 2024)"
    by (simp add: daysInMonth_def)
  have w: "(0::int) < msPerDay"
    by (simp add: msPerDay_def)
  note c = civil_of_local_time [of 0 15 2024 0, unfolded t]
  show "YearFromTime 1705276800000 = 2024" by (rule c(1)) (simp_all add: d w)
  show "MonthFromTime 1705276800000 = 0" by (rule c(2)) (simp_all add: d w)
  show "DateFromTime 1705276800000 = 15" by (rule c(3)) (simp_all add: d w)
  show "TimeWithinDay 1705276800000 = 0" by (rule c(4)) (simp_all add: d w)
qed

lemma InLeapYear_2024_01_15: "InLeapYear 1705276800000 = 1"
  by (simp add: InLeapYear_def fields_2024_01_15 leapDays_2024)

text \<open>
  C4, as the specification states it, fails. 2024-02-30 is no calendar date, February
  2024 having 29 days; on a platform whose parser lets the days roll over the string
  \<^verbatim>\<open>'2024-02-30'\<close> is read as 2024-03-01 and the validator returns no error.
\<close>

theorem dateValidator_rollover_counterexample:
  "\<not> validCalendarDate 2024 2 30
   \<and> dateParse rolloverPlatform ''2024-02-30'' = Some 1709251200000
   \<and> parseIsoDate ''2024-03-01'' = Some 1709251200000
   \<and> dateValidator rolloverPlatform [] (JStr ''2024-02-30'') = None"
proof -
  have f: "firstOfMonth 2024 1 = 19754" "firstOfMonth 2024 2 = 19783"
    by (simp_all add: firstOfMonth_def DayFromYear_def daysBeforeMonth_def leapDays_2024)
  have a: "\<not> validCalendarDate 2024 2 30"
    by (simp add: validCalendarDate_def daysInMonth_def leapDays_2024)
  have b: "dateParse rolloverPlatform ''2024-02-30'' = Some 1709251200000"
    by (simp add: rolloverPlatform_def parseIsoDateRollover_def digitValue_def f msPerDay_def)
  have c: "parseIsoDate ''2024-03-01'' = Some 1709251200000"
    by (simp add: parseIsoDate_def digitValue_def daysInMonth_def leapDays_2024 f msPerDay_def)
  have d: "dateValidator rolloverPlatform [] (JStr ''2024-02-30'') = None"
    by (simp add: dateValidator_eq dateValueOf_def b)
  from a b c d show ?thesis by (intro conjI)
qed

theorem dateValidator_passes_iff_Date_valid_witness:
  "dateParse examplePlatform ''abc'' = None
   \<and> dateValidator examplePlatform [] (JStr ''abc'') = Some (''invalidDate'', msgInvalidDate)
   \<and> dateParse examplePlatform ''2024-01-15'' = Some 1705276800000
   \<and> dateValidator examplePlatform [] (JStr ''2024-01-15'') = None
   \<and> dateValueOf examplePlatform [] JNull = Some 0
   \<and> dateValidator examplePlatform [] JNull = None"
proof -
  have a: "dateParse examplePlatform ''abc'' = None"
    by (simp add: examplePlatform_def parseIsoDate_abc)
  have b: "dateParse examplePlatform ''2024-01-15'' = Some 1705276800000"
    by (simp add: examplePlatform_def parseIsoDate_2024_01_15)
  have n: "dateValueOf examplePlatform [] JNull = Some 0"
    by (simp add: dateValueOf_def TimeClipNumber_def truncateNumber_def)
  have c: "dateValidator examplePlatform [] (JStr ''abc'') = Some (''invalidDate'', msgInvalidDate)"
    using dateValidator_passes_iff_Date_valid [of examplePlatform "[]" "''abc''" "JStr ''abc''"] a
    by auto
  have d: "dateValidator examplePlatform [] (JStr ''2024-01-15'') = None"
    using dateValidator_passes_iff_Date_valid [of examplePlatform "[]" "''2024-01-15''" JNull] b
    by simp
  have e: "dateValidator examplePlatform [] JNull = None"
    using dateValidator_passes_iff_Date_valid [of examplePlatform "[]" "''abc''" JNull] n
    by simp
  from a c b d n e show ?thesis by (intro conjI)
qed

section \<open>The end date that is computed\<close>

lemma truncateNumber_of_int: "truncateNumber (of_int n) = n"
  by (simp add: truncateNumber_def)

lemma MakeDay_integers:
  "MakeDay (Num (of_int y)) (Num (of_int m)) (Num (of_int d))
     = Some (firstOfMonth (y + m div 12) (m mod 12) + d - 1)"
  by (simp add: MakeDay_def truncateNumber_of_int Let_def)

lemma setMonthValue_integer:
  "setMonthValue P t (Num (of_int m))
     = TimeClip (UTC P (Some
         ((firstOfMonth (YearFromTime (LocalTime P t) + m div 12) (m mod 12)
            + DateFromTime (LocalTime P t) - 1) * msPerDay
          + TimeWithinDay (LocalTime P t))))"
  by (simp add: setMonthValue_def Let_def MakeDay_integers MakeDate_def)

lemma numberAdd_integers:
  assumes "\<bar>a + b\<bar> < 2 ^ 64"
  shows "numberAdd (Num (of_int a)) (Num (of_int b)) = Num (of_int (a + b))"
proof -
  have "\<bar>(of_int (a + b) :: rat)\<bar> < 2 ^ 64"
    using assms by (metis of_int_abs of_int_less_numeral_power_cancel_iff)
  moreover have "1 \<le> \<bar>(of_int (a + b) :: rat)\<bar> \<or> (of_int (a + b) :: rat) = 0"
  proof (cases "a + b = 0")
    case True
    then show ?thesis by simp
  next
    case False
    then have "1 \<le> \<bar>a + b\<bar>" by linarith
    then have "(of_int 1 :: rat) \<le> of_int \<bar>a + b\<bar>" by (simp only: of_int_le_iff)
    then show ?thesis by simp
  qed
  ultimately have "roundNumber (of_int (a + b)) = Num (of_int (a + b))"
    by (rule roundNumber_small)
  then show ?thesis
    by (simp add: numberAdd_def)
qed

lemma calcular_number_heap:
  assumes dc: "truthy (obj_get (formValue (produtoForm s)) ''dataCompra'')"
    and tv: "dateValueOf P (jsHeap s) (obj_get (formValue (produtoForm s)) ''dataCompra'') = Some t"
    and du: "obj_get (formValue (produtoForm s)) ''duracaoGarantiaMeses'' = JNum (Num (of_int k))"
    and k: "k \<noteq> 0" "\<bar>k\<bar> < 2 ^ 53"
  shows "calcularDataFimGarantia P s =
     s\<lparr>jsHeap := jsHeap s @ [setMonthValue P t (Num (of_int (MonthFromTime (LocalTime P t) + k)))],
       produtoForm := patchValue (produtoForm s) [(''dataFimGarantia'', JDate (length (jsHeap s)))]\<rparr>"
proof -
  let ?h1 = "jsHeap s @ [Some t]"
  let ?m = "MonthFromTime (LocalTime P t)"
  have du': "truthy (obj_get (formValue (produtoForm s)) ''duracaoGarantiaMeses'')"
    using k(1) by (simp add: du)
  have g: "getMonth P ?h1 (length (jsHeap s)) = Some ?m"
    by (simp add: getMonth_def deref_def)
  have "\<bar>?m + k\<bar> < 2 ^ 64"
    using MonthFromTime_range [of "LocalTime P t"] k(2) by simp
  then have add: "addToIntegral P ?h1 (Some ?m) (JNum (Num (of_int k))) = JNum (Num (of_int (?m + k)))"
    by (simp add: addToIntegral_def timevalNumber_def numberAdd_integers)
  have set: "setMonth P ?h1 (length (jsHeap s)) (JNum (Num (of_int (?m + k))))
      = jsHeap s @ [setMonthValue P t (Num (of_int (?m + k)))]"
    by (simp add: setMonth_def deref_def Let_def)
  show ?thesis
    by (simp only: calcular_unfold [OF dc du'] tv du g add set)
qed

text \<open>
  C1, as the specification states it, fails. The form holds a valid purchase date,
  2024-01-15, and the duration 0, which the numeric validator passes and which is not
  empty; the form has the field \<^verbatim>\<open>dataFimGarantia\<close>; after the calculation the field
  still holds the empty string, not the purchase date advanced by zero months.
\<close>

theorem calcular_zero_months_counterexample:
  "dateValidator examplePlatform (jsHeap (warrantyState (JNum (Num 0))))
       (obj_get (formValue (produtoForm (warrantyState (JNum (Num 0))))) ''dataCompra'') = None
   \<and> obj_get (formValue (produtoForm (warrantyState (JNum (Num 0))))) ''duracaoGarantiaMeses''
       = JNum (Num 0)
   \<and> numberValidator (jsHeap (warrantyState (JNum (Num 0)))) (JNum (Num 0)) = None
   \<and> requiredValidator (JNum (Num 0)) = None
   \<and> map_option ctlValue
        (map_of (controls (produtoForm (warrantyState (JNum (Num 0))))) ''dataFimGarantia'')
       = Some (JStr [])
   \<and> map_option ctlValue
        (map_of (controls (produtoForm
           (calcularDataFimGarantia examplePlatform (warrantyState (JNum (Num 0))))))
           ''dataFimGarantia'')
       = Some (JStr [])"
proof -
  have "calcularDataFimGarantia examplePlatform (warrantyState (JNum (Num 0)))
          = warrantyState (JNum (Num 0))"
    by (rule calcular_falsy) (simp add: warrantyState_value obj_get_def)
  then show ?thesis
    by (simp add: warrantyState_value warrantyState_controls obj_get_def warrantyState_date_valid
        numberValidator_def isNaN_def requiredValidator_def newControl_def)
qed

text \<open>
  C1, amended. When the purchase date or the duration held by the form is falsy (absent,
  empty, zero, NaN), the calculation changes nothing. When the form has the field
  \<^verbatim>\<open>dataFimGarantia\<close>, the purchase date is truthy and converts to a valid date, and the
  duration is a whole number of months other than zero (below \<open>2^53\<close> in magnitude), the
  calculation allocates one new Date and puts it in the field. In local time the new Date
  is the first day of the month that lies that many months after the month of the purchase
  date, plus the day of month of the purchase less one, at the same time within the day,
  brought back to UTC and clipped. When that day of month exists in the target month, the
  local date has the year and month so advanced and the same day of month; otherwise the
  days roll over into the following month.
\<close>

theorem calcular_sets_end_date:
  "(\<not> truthy (obj_get (formValue (produtoForm s)) ''dataCompra'')
      \<or> \<not> truthy (obj_get (formValue (produtoForm s)) ''duracaoGarantiaMeses'')
     \<longrightarrow> calcularDataFimGarantia P s = s)
   \<and> (map_of (controls (produtoForm s)) ''dataFimGarantia'' = Some c
       \<and> truthy (obj_get (formValue (produtoForm s)) ''dataCompra'')
       \<and> dateValueOf P (jsHeap s) (obj_get (formValue (produtoForm s)) ''dataCompra'') = Some t
       \<and> obj_get (formValue (produtoForm s)) ''duracaoGarantiaMeses'' = JNum (Num (of_int k))
       \<and> k \<noteq> 0 \<and> \<bar>k\<bar> < 2 ^ 53
     \<longrightarrow>
       (let lt = LocalTime P t;
            ym = YearFromTime lt + (MonthFromTime lt + k) div 12;
            mn = (MonthFromTime lt + k) mod 12;
            lt' = (firstOfMonth ym mn + DateFromTime lt - 1) * msPerDay + TimeWithinDay lt
        in jsHeap (calcularDataFimGarantia P s) = jsHeap s @ [TimeClip (UTC P (Some lt'))]
           \<and> map_of (controls (produtoForm (calcularDataFimGarantia P s))) ''dataFimGarantia''
               = Some (c\<lparr>ctlValue := JDate (length (jsHeap s))\<rparr>)
           \<and> (DateFromTime lt \<le> daysInMonth mn (leapDays ym) \<longrightarrow>
                YearFromTime lt' = ym \<and> MonthFromTime lt' = mn
                \<and> DateFromTime lt' = DateFromTime lt
                \<and> TimeWithinDay lt' = TimeWithinDay lt)))"
proof (intro conjI impI)
  assume "\<not> truthy (obj_get (formValue (produtoForm s)) ''dataCompra'')
      \<or> \<not> truthy (obj_get (formValue (produtoForm s)) ''duracaoGarantiaMeses'')"
  then show "calcularDataFimGarantia P s = s"
    by (rule calcular_falsy)
next
  assume a: "map_of (controls (produtoForm s)) ''dataFimGarantia'' = Some c
       \<and> truthy (obj_get (formValue (produtoForm s)) ''dataCompra'')
       \<and> dateValueOf P (jsHeap s) (obj_get (formValue (produtoForm s)) ''dataCompra'') = Some t
       \<and> obj_get (formValue (produtoForm s)) ''duracaoGarantiaMeses'' = JNum (Num (of_int k))
       \<and> k \<noteq> 0 \<and> \<bar>k\<bar> < 2 ^ 53"
  define lt where "lt = LocalTime P t"
  define ym where "ym = YearFromTime lt + (MonthFromTime lt + k) div 12"
  define mn where "mn = (MonthFromTime lt + k) mod 12"
  define lt' where "lt' = (firstOfMonth ym mn + DateFromTime lt - 1) * msPerDay + TimeWithinDay lt"
  from a have eq: "calcularDataFimGarantia P s =
     s\<lparr>jsHeap := jsHeap s @ [setMonthValue P t (Num (of_int (MonthFromTime (LocalTime P t) + k)))],
       produtoForm := patchValue (produtoForm s) [(''dataFimGarantia'', JDate (length (jsHeap s)))]\<rparr>"
    by (intro calcular_number_heap) simp_all
  have h: "jsHeap (calcularDataFimGarantia P s) = jsHeap s @ [TimeClip (UTC P (Some lt'))]"
    by (simp add: eq setMonthValue_integer lt_def ym_def mn_def lt'_def del: of_int_add)
  have f: "map_of (controls (produtoForm (calcularDataFimGarantia P s))) ''dataFimGarantia''
               = Some (c\<lparr>ctlValue := JDate (length (jsHeap s))\<rparr>)"
    using a by (simp add: eq controls_patchValue_one map_of_patchControl_same)
  have cal: "DateFromTime lt \<le> daysInMonth mn (leapDays ym) \<longrightarrow>
                YearFromTime lt' = ym \<and> MonthFromTime lt' = mn
                \<and> DateFromTime lt' = DateFromTime lt
                \<and> TimeWithinDay lt' = TimeWithinDay lt"
  proof
    assume d: "DateFromTime lt \<le> daysInMonth mn (leapDays ym)"
    have m: "0 \<le> mn" "mn \<le> 11"
      by (simp_all add: mn_def)
    note c = civil_of_local_time [OF m DateFromTime_range(1) [of lt] d
        TimeWithinDay_range(1) [of lt] TimeWithinDay_range(2) [of lt], folded lt'_def]
    from c show "YearFromTime lt' = ym \<and> MonthFromTime lt' = mn
                \<and> DateFromTime lt' = DateFromTime lt
                \<and> TimeWithinDay lt' = TimeWithinDay lt"
      by (intro conjI)
  qed
  from h f cal
  show "let lt = LocalTime P t;
            ym = YearFromTime lt + (MonthFromTime lt + k) div 12;
            mn = (MonthFromTime lt + k) mod 12;
            lt' = (firstOfMonth ym mn + DateFromTime lt - 1) * msPerDay + TimeWithinDay lt
        in jsHeap (calcularDataFimGarantia P s) = jsHeap s @ [TimeClip (UTC P (Some lt'))]
           \<and> map_of (controls (produtoForm (calcularDataFimGarantia P s))) ''dataFimGarantia''
               = Some (c\<lparr>ctlValue := JDate (length (jsHeap s))\<rparr>)
           \<and> (DateFromTime lt \<le> daysInMonth mn (leapDays ym) \<longrightarrow>
                YearFromTime lt' = ym \<and> MonthFromTime lt' = mn
                \<and> DateFromTime lt' = DateFromTime lt
                \<and> TimeWithinDay lt' = TimeWithinDay lt)"
    unfolding Let_def lt_def [symmetric] ym_def [symmetric] mn_def [symmetric] lt'_def [symmetric]
    by (intro conjI)
qed

lemma warrantyState_heap: "jsHeap (warrantyState d) = [Some 1705276800000]"
  by (simp add: warrantyState_def)

lemma examplePlatform_times:
  "LocalTime examplePlatform t = t" "UTC examplePlatform (Some t) = Some t"
  by (simp_all add: LocalTime_def UTC_def examplePlatform_def)

lemma fields_2025_01_15:
  "YearFromTime 1736899200000 = 2025" "MonthFromTime 1736899200000 = 0"
  "DateFromTime 1736899200000 = 15" "TimeWithinDay 1736899200000 = 0"
proof -
  have t: "(firstOfMonth 2025 0 + 15 - 1) * msPerDay + 0 = 1736899200000"
    by (simp add: firstOfMonth_2025_0 msPerDay_def)
  have d: "(15::int) \<le> daysInMonth 0 (leapDays 2025)"
    by (simp add: daysInMonth_def)
  have w: "(0::int) < msPerDay"
    by (simp add: msPerDay_def)
  note c = civil_of_local_time [of 0 15 2025 0, unfolded t]
  show "YearFromTime 1736899200000 = 2025" by (rule c(1)) (simp_all add: d w)
  show "MonthFromTime 1736899200000 = 0" by (rule c(2)) (simp_all add: d w)
  show "DateFromTime 1736899200000 = 15" by (rule c(3)) (simp_all add: d w)
  show "TimeWithinDay 1736899200000 = 0" by (rule c(4)) (simp_all add: d w)
qed

theorem calcular_sets_end_date_witness:
  "map_of (controls (produtoForm (warrantyState (JNum (Num 12))))) ''dataFimGarantia''
       = Some (newControl (JStr []) True [])
   \<and> obj_get (formValue (produtoForm (warrantyState (JNum (Num 12))))) ''dataCompra'' = JDate 0
   \<and> dateValueOf examplePlatform (jsHeap (warrantyState (JNum (Num 12)))) (JDate 0)
       = Some 1705276800000
   \<and> obj_get (formValue (produtoForm (warrantyState (JNum (Num 12))))) ''duracaoGarantiaMeses''
       = JNum (Num 12)
   \<and> jsHeap (calcularDataFimGarantia examplePlatform (warrantyState (JNum (Num 12))))
       = [Some 1705276800000, Some 1736899200000]
   \<and> map_of (controls (produtoForm
         (calcularDataFimGarantia examplePlatform (warrantyState (JNum (Num 12))))))
         ''dataFimGarantia''
       = Some (newControl (JDate 1) True [])
   \<and> YearFromTime 1736899200000 = 2025 \<and> MonthFromTime 1736899200000 = 0
   \<and> DateFromTime 1736899200000 = 15
   \<and> calcularDataFimGarantia examplePlatform (warrantyState (JStr []))
       = warrantyState (JStr [])"
proof -
  let ?W = "warrantyState (JNum (Num 12))"
  have a1: "map_of (controls (produtoForm ?W)) ''dataFimGarantia''
       = Some (newControl (JStr []) True [])"
    by (simp add: warrantyState_controls)
  have a2: "obj_get (formValue (produtoForm ?W)) ''dataCompra'' = JDate 0"
    by (simp add: warrantyState_value obj_get_def)
  have a3: "dateValueOf examplePlatform (jsHeap ?W) (JDate 0) = Some 1705276800000"
    by (simp add: warrantyState_heap dateValueOf_def deref_def)
  have a4: "obj_get (formValue (produtoForm ?W)) ''duracaoGarantiaMeses'' = JNum (Num 12)"
    by (simp add: warrantyState_value obj_get_def)
  have hyps: "map_of (controls (produtoForm ?W)) ''dataFimGarantia''
         = Some (newControl (JStr []) True [])
       \<and> truthy (obj_get (formValue (produtoForm ?W)) ''dataCompra'')
       \<and> dateValueOf examplePlatform (jsHeap ?W)
           (obj_get (formValue (produtoForm ?W)) ''dataCompra'') = Some 1705276800000
       \<and> obj_get (formValue (produtoForm ?W)) ''duracaoGarantiaMeses''
           = JNum (Num (of_int 12))
       \<and> (12::int) \<noteq> 0 \<and> \<bar>12::int\<bar> < 2 ^ 53"
    by (simp add: a1 a2 a3 a4)
  note c = calcular_sets_end_date [of ?W examplePlatform "newControl (JStr []) True []"
      1705276800000 12, THEN conjunct2, THEN mp, OF hyps]
  have b: "jsHeap (calcularDataFimGarantia examplePlatform ?W)
       = [Some 1705276800000, Some 1736899200000]
     \<and> map_of (controls (produtoForm (calcularDataFimGarantia examplePlatform ?W)))
         ''dataFimGarantia''
       = Some (newControl (JDate 1) True [])"
    using c
    by (simp add: Let_def examplePlatform_times fields_2024_01_15 firstOfMonth_2025_0
        msPerDay_def TimeClip_def warrantyState_heap newControl_def)
  have f: "\<not> truthy (obj_get (formValue (produtoForm (warrantyState (JStr []))))
              ''duracaoGarantiaMeses'')"
    by (simp add: warrantyState_value obj_get_def)
  have e: "calcularDataFimGarantia examplePlatform (warrantyState (JStr []))
       = warrantyState (JStr [])"
    using calcular_sets_end_date [of "warrantyState (JStr [])" examplePlatform
        "newControl (JStr []) True []" 1705276800000 12, THEN conjunct1] f
    by blast
  from b have b1: "jsHeap (calcularDataFimGarantia examplePlatform ?W)
       = [Some 1705276800000, Some 1736899200000]"
    and b2: "map_of (controls (produtoForm (calcularDataFimGarantia examplePlatform ?W)))
         ''dataFimGarantia''
       = Some (newControl (JDate 1) True [])"
    by blast+
  from a1 a2 a3 a4 b1 b2 fields_2025_01_15(1) fields_2025_01_15(2) fields_2025_01_15(3) e
  show ?thesis
    by (intro conjI)
qed

text \<open>
  The form that \<^verbatim>\<open>createForm\<close> builds, the one in use once the component is initialised,
  has no control \<^verbatim>\<open>dataFimGarantia\<close>, and \<^verbatim>\<open>patchValue\<close> skips a key that names no
  control: on that form the calculation changes no control, whatever the inputs.
\<close>

lemma calcular_without_field:
  assumes "map_of (controls (produtoForm s)) ''dataFimGarantia'' = None"
  shows "controls (produtoForm (calcularDataFimGarantia P s)) = controls (produtoForm s)"
proof (cases "truthy (obj_get (formValue (produtoForm s)) ''dataCompra'')
              \<and> truthy (obj_get (formValue (produtoForm s)) ''duracaoGarantiaMeses'')")
  case False
  then have "calcularDataFimGarantia P s = s"
    by (intro calcular_falsy) simp
  then show ?thesis by simp
next
  case True
  then have "produtoForm (calcularDataFimGarantia P s)
      = patchValue (produtoForm s) [(''dataFimGarantia'', JDate (length (jsHeap s)))]"
    by (simp add: calcular_unfold)
  then show ?thesis
    by (simp add: controls_patchValue_one patchControl_absent [OF assms])
qed

lemma createForm_without_field:
  "map_of (controls (produtoForm (createForm s))) ''dataFimGarantia'' = None"
  by (simp add: createForm_def group_def controls_updateValueAndValidity)

lemma calcular_after_createForm:
  "truthy (obj_get (formValue (produtoForm creatingState)) ''dataCompra'')
   \<and> truthy (obj_get (formValue (produtoForm creatingState)) ''duracaoGarantiaMeses'')
   \<and> map_of (controls (produtoForm (calcularDataFimGarantia examplePlatform creatingState)))
        ''dataFimGarantia'' = None
   \<and> obj_get (formValue (produtoForm (calcularDataFimGarantia examplePlatform creatingState)))
        ''dataFimGarantia'' = JUndefined"
proof -
  have v: "formValue (produtoForm creatingState) = [(''id'', JStr ''3''), (''nome'', JStr ''TV''),
            (''dataCompra'', JStr ''2024-01-15''), (''duracaoGarantiaMeses'', JNum (Num 12))]"
    by (simp add: example_defs form_defs)
  have t: "truthy (obj_get (formValue (produtoForm creatingState)) ''dataCompra'')"
    "truthy (obj_get (formValue (produtoForm creatingState)) ''duracaoGarantiaMeses'')"
    by (simp_all add: v obj_get_def)
  have f: "produtoForm (calcularDataFimGarantia examplePlatform creatingState)
      = patchValue (produtoForm creatingState) [(''dataFimGarantia'', JDate 0)]"
    by (simp add: calcular_unfold [OF t]) (simp add: creatingState_def)
  have "produtoForm (calcularDataFimGarantia examplePlatform creatingState)
      = produtoForm creatingState"
    unfolding f by (simp add: example_defs form_defs)
  then show ?thesis
    using t by (simp add: v obj_get_def) (simp add: example_defs form_defs)
qed

theorem calcular_keeps_dataCompra_witness:
  "map_of (controls (produtoForm (warrantyState (JNum (Num 12))))) ''dataCompra''
       = Some (newControl (JDate 0) False [Required])
   \<and> map_of (controls (produtoForm
         (calcularDataFimGarantia examplePlatform (warrantyState (JNum (Num 12))))))
         ''dataCompra''
       = Some (newControl (JDate 0) False [Required])
   \<and> (0::nat) < length (jsHeap (warrantyState (JNum (Num 12))))
   \<and> deref (jsHeap (warrantyState (JNum (Num 12)))) 0 = Some 1705276800000
   \<and> deref (jsHeap (calcularDataFimGarantia examplePlatform (warrantyState (JNum (Num 12))))) 0
       = Some 1705276800000"
proof -
  let ?W = "warrantyState (JNum (Num 12))"
  note t = calcular_keeps_dataCompra [of examplePlatform ?W]
  have a: "map_of (controls (produtoForm ?W)) ''dataCompra''
       = Some (newControl (JDate 0) False [Required])"
    by (simp add: warrantyState_controls)
  have l: "(0::nat) < length (jsHeap ?W)"
    by (simp add: warrantyState_heap)
  have d: "deref (jsHeap ?W) 0 = Some 1705276800000"
    by (simp add: warrantyState_heap deref_def)
  from t a have b: "map_of (controls (produtoForm (calcularDataFimGarantia examplePlatform ?W)))
         ''dataCompra'' = Some (newControl (JDate 0) False [Required])"
    by simp
  from t l have "deref (jsHeap (calcularDataFimGarantia examplePlatform ?W)) 0
       = deref (jsHeap ?W) 0"
    by blast
  with d have e: "deref (jsHeap (calcularDataFimGarantia examplePlatform ?W)) 0
       = Some 1705276800000"
    by simp
  from a b l d e show ?thesis
    by (intro conjI)
qed

text \<open>
  The day of month that the target month does not have rolls over: one month after
  2024-01-31 is 2024-03-02, February 2024 having 29 days.
\<close>

lemma fields_2024_01_31:
  "YearFromTime 1706659200000 = 2024" "MonthFromTime 1706659200000 = 0"
  "DateFromTime 1706659200000 = 31" "TimeWithinDay 1706659200000 = 0"
proof -
  have t: "(firstOfMonth 2024 0 + 31 - 1) * msPerDay + 0 = 1706659200000"
    by (simp add: firstOfMonth_2024_0 msPerDay_def)
  have d: "(31::int) \<le> daysInMonth 0 (leapDays 2024)"
    by (simp add: daysInMonth_def)
  have w: "(0::int) < msPerDay"
    by (simp add: msPerDay_def)
  note c = civil_of_local_time [of 0 31 2024 0, unfolded t]
  show "YearFromTime 1706659200000 = 2024" by (rule c(1)) (simp_all add: d w)
  show "MonthFromTime 1706659200000 = 0" by (rule c(2)) (simp_all add: d w)
  show "DateFromTime 1706659200000 = 31" by (rule c(3)) (simp_all add: d w)
  show "TimeWithinDay 1706659200000 = 0" by (rule c(4)) (simp_all add: d w)
qed

lemma setMonth_rollover_example:
  "parseIsoDate ''2024-01-31'' = Some 1706659200000
   \<and> setMonthValue examplePlatform 1706659200000 (Num (of_int (0 + 1))) = Some 1709337600000
   \<and> parseIsoDate ''2024-03-02'' = Some 1709337600000"
proof -
  have f: "firstOfMonth 2024 1 = 19754" "firstOfMonth 2024 2 = 19783"
    by (simp_all add: firstOfMonth_def DayFromYear_def daysBeforeMonth_def leapDays_2024)
  have a: "parseIsoDate ''2024-01-31'' = Some 1706659200000"
    by (simp add: parseIsoDate_def digitValue_def daysInMonth_def leapDays_2024
        firstOfMonth_2024_0 msPerDay_def)
  have b: "parseIsoDate ''2024-03-02'' = Some 1709337600000"
    by (simp add: parseIsoDate_def digitValue_def daysInMonth_def leapDays_2024 f msPerDay_def)
  have c: "setMonthValue examplePlatform 1706659200000 (Num (of_int (0 + 1))) = Some 1709337600000"
    by (simp only: setMonthValue_integer)
      (simp add: examplePlatform_times fields_2024_01_31 f msPerDay_def TimeClip_def)
  from a c b show ?thesis by (intro conjI)
qed

end
